theory Spec2Isabelle
  imports Complex_Main "HOL-Library.Log_Nat"
begin

section \<open>JavaScript numbers and strings\<close>

text \<open>
  A JavaScript number is NaN, one of the two infinities, or a finite value, kept as a
  rational. Integers read by \<open>parseInt\<close> and readings in milli-Celsius are exact; the
  conversion from tenths of Kelvin is computed in binary64, with its rounding. The two
  zeros are one value: no comparison and no output of the program tells them apart.
\<close>

datatype jsnum = NaN | NegInf | Fin rat | PosInf

text \<open>The operator \<open>a > b\<close> on numbers: false as soon as one side is NaN.\<close>

fun js_gt :: "jsnum \<Rightarrow> jsnum \<Rightarrow> bool" where
  "js_gt NaN b = False"
| "js_gt a NaN = False"
| "js_gt NegInf b = False"
| "js_gt a NegInf = True"
| "js_gt PosInf PosInf = False"
| "js_gt PosInf (Fin b) = True"
| "js_gt (Fin a) PosInf = False"
| "js_gt (Fin a) (Fin b) = (b < a)"

definition isNaN :: "jsnum \<Rightarrow> bool" where
  "isNaN n = (n = NaN)"

definition isFinite :: "jsnum \<Rightarrow> bool" where
  "isFinite n = (case n of Fin r \<Rightarrow> True | _ \<Rightarrow> False)"

text \<open>
  Strings are lists of bytes. White space is the ASCII white space (space, tab, line feed,
  vertical tab, form feed, carriage return); letters are folded in ASCII only, which is
  what a regular expression with the flag \<open>i\<close> and ASCII literals does on any input.
\<close>

definition is_space :: "char \<Rightarrow> bool" where
  "is_space c = (c \<in> set [CHR '' '', CHR 0x09, CHR 0x0A, CHR 0x0B, CHR 0x0C, CHR 0x0D])"

definition trimStart :: "string \<Rightarrow> string" where
  "trimStart s = dropWhile is_space s"

definition trimEnd :: "string \<Rightarrow> string" where
  "trimEnd s = rev (dropWhile is_space (rev s))"

definition trim :: "string \<Rightarrow> string" where
  "trim s = trimEnd (trimStart s)"

definition toLowerChar :: "char \<Rightarrow> char" where
  "toLowerChar c =
     (case map_of (zip ''ABCDEFGHIJKLMNOPQRSTUVWXYZ'' ''abcdefghijklmnopqrstuvwxyz'') c of
        Some l \<Rightarrow> l
      | None \<Rightarrow> c)"

definition toLower :: "string \<Rightarrow> string" where
  "toLower s = map toLowerChar s"

fun startsWith :: "string \<Rightarrow> string \<Rightarrow> bool" where
  "startsWith s [] = True"
| "startsWith [] (p # ps) = False"
| "startsWith (c # cs) (p # ps) = (c = p \<and> startsWith cs ps)"

fun includesStr :: "string \<Rightarrow> string \<Rightarrow> bool" where
  "includesStr [] p = (p = [])"
| "includesStr (c # cs) p = (startsWith (c # cs) p \<or> includesStr cs p)"

text \<open>
  \<open>/a|b|c/i.test(s)\<close> for literal alternatives: some alternative occurs in \<open>s\<close>,
  letters compared without case.
\<close>

definition regex_alt_i :: "string list \<Rightarrow> string \<Rightarrow> bool" where
  "regex_alt_i alts s = list_ex (\<lambda>p. includesStr (toLower s) (toLower p)) alts"

subsection \<open>parseInt with radix 10\<close>

definition digit_of :: "char \<Rightarrow> nat option" where
  "digit_of c =
     (let n = (of_char c :: nat) in if 48 \<le> n \<and> n \<le> 57 then Some (n - 48) else None)"

definition is_digit :: "char \<Rightarrow> bool" where
  "is_digit c = (digit_of c \<noteq> None)"

fun digits_value :: "nat \<Rightarrow> string \<Rightarrow> nat" where
  "digits_value acc [] = acc"
| "digits_value acc (c # cs) =
     (case digit_of c of None \<Rightarrow> acc | Some d \<Rightarrow> digits_value (10 * acc + d) cs)"

text \<open>The sign prefix of a numeric string: the sign and the rest.\<close>

fun strip_sign :: "string \<Rightarrow> int \<times> string" where
  "strip_sign [] = (1, [])"
| "strip_sign (c # cs) =
     (if c = CHR ''-'' then (-1, cs) else if c = CHR ''+'' then (1, cs) else (1, c # cs))"

text \<open>
  \<open>parseInt(s, 10)\<close>: leading white space is skipped, a sign is read, then the longest
  run of decimal digits; no digit gives NaN (\<open>None\<close>). The integer is exact.
\<close>

definition parseInt :: "string \<Rightarrow> int option" where
  "parseInt s =
     (let (sign, rest) = strip_sign (trimStart s);
          z = takeWhile is_digit rest
      in if z = [] then None else Some (sign * int (digits_value 0 z)))"

subsection \<open>Binary64 rounding\<close>

text \<open>
  The arithmetic of the ACPI conversion is done in binary64: each operation returns the
  value with a 53-bit significand nearest to the exact result, ties to the even
  significand. The exponent range is not bounded here (no overflow to infinity, no
  subnormal numbers); the operands of the conversion are far from both.
\<close>

text \<open>For \<open>q > 0\<close>, the exponent \<open>e\<close> with \<open>2 powi e \<le> q < 2 powi (e + 1)\<close>.\<close>

definition ilog2 :: "rat \<Rightarrow> int" where
  "ilog2 q =
     (let (a, b) = quotient_of q;
          k = bitlen a - bitlen b
      in if 2 powi k \<le> q then k else k - 1)"

definition round_half_even :: "rat \<Rightarrow> int" where
  "round_half_even x =
     (let f = \<lfloor>x\<rfloor>; r = x - of_int f
      in if r < 1 / 2 then f
         else if 1 / 2 < r then f + 1
         else if even f then f else f + 1)"

definition binary64 :: "rat \<Rightarrow> rat" where
  "binary64 q =
     (if q = 0 then 0
      else (let u = 2 powi (ilog2 \<bar>q\<bar> - 52)
            in sgn q * of_int (round_half_even (\<bar>q\<bar> / u)) * u))"

subsection \<open>toFixed(1) read back by parseFloat\<close>

text \<open>
  \<open>x.toFixed(1)\<close> as a number: the multiple of one tenth nearest to the exact value of
  the binary64 number \<open>x\<close>. ECMAScript takes the sign off first and then, of two
  equally near integers \<open>n\<close> with \<open>n / 10\<close>, picks the larger: the larger in magnitude
  of two equally near multiples. Such ties do occur in the conversion: tenths of Kelvin
  2569 give exactly -16.25, printed -16.3. \<open>parseFloat\<close> of the string is the binary64
  number nearest to it.
\<close>

definition toFixed1 :: "rat \<Rightarrow> rat" where
  "toFixed1 c =
     (if c < 0 then - (of_int \<lfloor>(- c) * 10 + 1 / 2\<rfloor> / 10)
      else of_int \<lfloor>c * 10 + 1 / 2\<rfloor> / 10)"

section \<open>The ACPI thermal-zone strategy\<close>

text \<open>
  Lines 86 to 95 of main.ts, on the trimmed output \<open>raw\<close> of the WMI query:
  \<^verbatim>\<open>
  if (raw) {
    const val = parseInt(raw, 10);
    if (!Number.isNaN(val) && val > 0) {
      const c = val / 10 - 273.15;
      if (c > -50 && c < 150) { return parseFloat(c.toFixed(1)); }
    }
  }\<close>
  \<open>val / 10\<close>, the literal \<open>273.15\<close> and the difference are binary64 values.
\<close>

text \<open>The literal \<open>273.15\<close>: the binary64 number nearest to it.\<close>

definition kelvinOffset :: rat where
  "kelvinOffset = binary64 (27315 / 100)"

definition deciKelvinToCelsius :: "int \<Rightarrow> rat" where
  "deciKelvinToCelsius val = binary64 (binary64 (of_int val / 10) - kelvinOffset)"

definition acpi_convert :: "string \<Rightarrow> jsnum option" where
  "acpi_convert raw =
     (if raw = [] then None
      else case parseInt raw of
        None \<Rightarrow> None
      | Some val \<Rightarrow>
          if val > 0 then
            (let c = deciKelvinToCelsius val
             in if c > -50 \<and> c < 150 then Some (Fin (binary64 (toFixed1 c))) else None)
          else None)"

subsection \<open>parseFloat\<close>

text \<open>The exponent part \<open>[eE][+-]?digits\<close> at the head of a string; 0 when there is none.\<close>

definition exponent_part :: "string \<Rightarrow> int" where
  "exponent_part r =
     (case r of
        [] \<Rightarrow> 0
      | c # cs \<Rightarrow>
          if c = CHR ''e'' \<or> c = CHR ''E'' then
            (let (sg, ds) = strip_sign cs; z = takeWhile is_digit ds
             in if z = [] then 0 else sg * int (digits_value 0 z))
          else 0)"

definition scale10 :: "rat \<Rightarrow> int \<Rightarrow> rat" where
  "scale10 m e = (if 0 \<le> e then m * 10 ^ nat e else m / 10 ^ nat (- e))"

text \<open>
  \<open>parseFloat(s)\<close>: leading white space is skipped and the longest prefix that is a
  decimal literal (sign, \<open>Infinity\<close>, or digits with an optional fraction and exponent) is
  read; no such prefix gives NaN. The value is the exact decimal: binary64 rounding and
  overflow are not modelled.
\<close>

definition parseFloat :: "string \<Rightarrow> jsnum" where
  "parseFloat s =
     (let (sign, rest) = strip_sign (trimStart s)
      in if startsWith rest ''Infinity'' then (if sign < 0 then NegInf else PosInf)
         else
           (let ip = takeWhile is_digit rest;
                r1 = dropWhile is_digit rest;
                (fp, r2) =
                  (case r1 of
                     [] \<Rightarrow> ([], [])
                   | c # cs \<Rightarrow>
                       if c = CHR ''.'' then (takeWhile is_digit cs, dropWhile is_digit cs)
                       else ([], r1))
            in if ip = [] \<and> fp = [] then NaN
               else Fin (scale10
                      (of_int sign * (of_nat (digits_value 0 (ip @ fp)) / 10 ^ length fp))
                      (exponent_part r2))))"

section \<open>Effects: the trace, thrown errors, try and catch\<close>

datatype level = Debug | Info | Warn | Error

datatype exn = Exn string

datatype command = OhmSensorQuery | AcpiThermalZoneQuery | NvidiaSmiQuery

text \<open>
  What a run leaves behind: the calls of the logger (level, message, the error attached),
  the subprocesses started by \<open>execSync\<close>, and the timers awaited (milliseconds).
\<close>

datatype event = Log level string "exn option" | Exec command | Sleep int

datatype 'a outcome = Returns 'a | Throws exn

text \<open>
  A computation is the trace it leaves and how it ends. An async function that rejects is
  a computation that throws.
\<close>

type_synonym 'a comp = "event list \<times> 'a outcome"

definition ret :: "'a \<Rightarrow> 'a comp" where
  "ret v = ([], Returns v)"

definition bind :: "'a comp \<Rightarrow> ('a \<Rightarrow> 'b comp) \<Rightarrow> 'b comp" where
  "bind m f =
     (case m of
        (t, Throws e) \<Rightarrow> (t, Throws e)
      | (t, Returns v) \<Rightarrow> (case f v of (t', r) \<Rightarrow> (t @ t', r)))"

text \<open>\<open>try { m } catch (err) { h err }\<close>\<close>

definition try_catch :: "'a comp \<Rightarrow> (exn \<Rightarrow> 'a comp) \<Rightarrow> 'a comp" where
  "try_catch m h =
     (case m of
        (t, Returns v) \<Rightarrow> (t, Returns v)
      | (t, Throws e) \<Rightarrow> (case h e of (t', r) \<Rightarrow> (t @ t', r)))"

definition logger :: "level \<Rightarrow> string \<Rightarrow> exn option \<Rightarrow> unit comp" where
  "logger lv msg meta = ([Log lv msg meta], Returns ())"

text \<open>
  \<open>execSync(cmd).toString()\<close>: the subprocess is started; \<open>r\<close> is what the
  environment answers, the standard output or a throw (binary missing, non-zero exit,
  timeout).
\<close>

definition execSync :: "command \<Rightarrow> string outcome \<Rightarrow> string comp" where
  "execSync cmd r = ([Exec cmd], r)"

text \<open>A call that leaves no trace of its own (a library or file-system call).\<close>

definition call :: "'a outcome \<Rightarrow> 'a comp" where
  "call r = ([], r)"

text \<open>
  Inside a function body a block either executes \<open>return v\<close> or falls through to the
  next statement.
\<close>

datatype 'a flow = Return 'a | Next

definition and_then :: "'a flow comp \<Rightarrow> 'a flow comp \<Rightarrow> 'a flow comp" where
  "and_then m k = bind m (\<lambda>f. case f of Return v \<Rightarrow> ret (Return v) | Next \<Rightarrow> k)"

text \<open>The end of a function body whose last statement is \<open>return d\<close>.\<close>

definition finish :: "'a \<Rightarrow> 'a flow comp \<Rightarrow> 'a comp" where
  "finish d m = bind m (\<lambda>f. case f of Return v \<Rightarrow> ret v | Next \<Rightarrow> ret d)"


section \<open>The CPU temperature resolver\<close>

subsection \<open>The exported hardware-monitor JSON and its walk\<close>

text \<open>What \<open>JSON.parse\<close> returns; an object is the list of its keys and values.\<close>

datatype json =
    JNull
  | JBool bool
  | JNum jsnum
  | JStr string
  | JArr "json list"
  | JObj "(string \<times> json) list"

text \<open>\<open>JSON.parse\<close> never produces the number NaN.\<close>

fun nan_free :: "json \<Rightarrow> bool" where
  "nan_free JNull = True"
| "nan_free (JBool b) = True"
| "nan_free (JNum n) = (n \<noteq> NaN)"
| "nan_free (JStr s) = True"
| "nan_free (JArr xs) = list_all nan_free xs"
| "nan_free (JObj fs) = list_all (\<lambda>kv. nan_free (snd kv)) fs"

definition cpu_label_alts :: "string list" where
  "cpu_label_alts = [''tctl'', ''tdie'', ''package'', ''cpu temp'', ''ccd'', ''core (tctl/tdie)'']"

text \<open>
  \<open>text && /tctl|tdie|package|cpu temp|ccd|core \(tctl\/tdie\)/i.test(text)\<close>, for
  \<open>text: string | undefined\<close> as the source declares it. A label that is null, a
  boolean, a number or an object never passes this test in the source either; an array
  as a label is outside the declared type and is taken as not matching.
\<close>

definition label_matches :: "json option \<Rightarrow> bool" where
  "label_matches text =
     (case text of
        Some (JStr s) \<Rightarrow> s \<noteq> [] \<and> regex_alt_i cpu_label_alts s
      | _ \<Rightarrow> False)"

text \<open>\<open>if (best === null || value > best) best = value\<close>\<close>

definition keep_max :: "jsnum \<Rightarrow> jsnum option \<Rightarrow> jsnum option" where
  "keep_max v best =
     (case best of
        None \<Rightarrow> Some v
      | Some b \<Rightarrow> if js_gt v b then Some v else Some b)"

text \<open>
  The closure \<open>walk\<close> of lines 36 to 51, with the variable \<open>best\<close> it assigns passed
  in and returned. Anything that is not an object (an array included: it has no
  \<open>Text\<close> and no \<open>Children\<close>) is left at once.
\<close>

function walk :: "json \<Rightarrow> jsnum option \<Rightarrow> jsnum option"
  and walk_children :: "json list \<Rightarrow> jsnum option \<Rightarrow> jsnum option" where
  "walk node best =
     (case node of
        JObj fs \<Rightarrow>
          (let best1 =
                 (if label_matches (map_of fs ''Text'') then
                    (case map_of fs ''Value'' of
                       Some (JNum value) \<Rightarrow> keep_max value best
                     | _ \<Rightarrow> best)
                  else best)
           in case map_of fs ''Children'' of
                Some (JArr cs) \<Rightarrow> walk_children cs best1
              | _ \<Rightarrow> best1)
      | _ \<Rightarrow> best)"
| "walk_children [] best = best"
| "walk_children (c # cs) best = walk_children cs (walk c best)"
  by pat_completeness auto
termination
proof -
  have sz: "size v < Suc (size_list (size_prod (\<lambda>_. 0) size) fs)"
    if "map_of fs k = Some v" for fs :: "(string \<times> json) list" and k v
    using that by (induction fs) (auto split: if_splits)
  show ?thesis
    by (relation "measure (\<lambda>x. case x of Inl (n, b) \<Rightarrow> size n
                                     | Inr (cs, b) \<Rightarrow> size_list size cs)")
       (auto dest: sz)
qed


subsection \<open>What the resolver reads from its environment\<close>

text \<open>
  A file of the thermal-zone tree: \<open>None\<close> when \<open>existsSync\<close> says it does not
  exist, otherwise what \<open>readFileSync\<close> does, the content or a throw.
\<close>

type_synonym sysfile = "string outcome option"

record zone_entry =
  zone_name :: string
  type_file :: sysfile
  temp_file :: sysfile

text \<open>
  One run of \<open>getCpuTemperature\<close> asks each of these at most once:
  \<^item> \<open>si_cpuTemperature\<close>: \<open>await si.cpuTemperature()\<close> rejects, or resolves with an
    object whose \<open>main\<close> is a number (\<open>Some\<close>) or is not (\<open>None\<close>);
  \<^item> \<open>win32\<close>: \<open>process.platform === 'win32'\<close>;
  \<^item> \<open>lhm_json\<close>: \<open>None\<close> when \<open>LHM_JSON_PATH\<close> is unset or names no existing
    file, otherwise what reading and parsing it does;
  \<^item> \<open>ohm_query\<close>, \<open>acpi_query\<close>: what the two PowerShell subprocesses answer;
  \<^item> \<open>thermal_dir\<close>: \<open>None\<close> when \<open>/sys/class/thermal\<close> does not exist, otherwise
    what \<open>readdirSync\<close> does, the entries with their two files or a throw.
\<close>

record cpu_env =
  si_cpuTemperature :: "jsnum option outcome"
  win32 :: bool
  lhm_json :: "json outcome option"
  ohm_query :: "string outcome"
  acpi_query :: "string outcome"
  thermal_dir :: "zone_entry list outcome option"

subsection \<open>The strategies, in the order of the source\<close>

text \<open>Lines 11 to 21: the hardware-information library.\<close>

definition si_strategy :: "cpu_env \<Rightarrow> jsnum option flow comp" where
  "si_strategy env =
     try_catch
       (bind (call (si_cpuTemperature env)) (\<lambda>main.
          case main of
            Some n \<Rightarrow> if \<not> isNaN n then ret (Return (Some n)) else ret Next
          | None \<Rightarrow> ret Next))
       (\<lambda>err. bind
          (logger Warn ''systeminformation cpuTemperature() failed, attempting fallback''
             (Some err))
          (\<lambda>_. ret Next))"

text \<open>Lines 29 to 57: the exported JSON of LibreHardwareMonitor.\<close>

definition lhm_strategy :: "cpu_env \<Rightarrow> jsnum option flow comp" where
  "lhm_strategy env =
     (case lhm_json env of
        None \<Rightarrow> ret Next
      | Some r \<Rightarrow>
          try_catch
            (bind (call r) (\<lambda>json.
               case walk json None of
                 Some best \<Rightarrow> ret (Return (Some best))
               | None \<Rightarrow> ret Next))
            (\<lambda>err. bind
               (logger Debug ''Failed parsing LibreHardwareMonitor JSON'' (Some err))
               (\<lambda>_. ret Next)))"

text \<open>Lines 60 to 75: the sensors of OpenHardwareMonitor over WMI.\<close>

definition ohm_strategy :: "cpu_env \<Rightarrow> jsnum option flow comp" where
  "ohm_strategy env =
     try_catch
       (bind (execSync OhmSensorQuery (ohm_query env)) (\<lambda>stdout.
          let out = trim stdout
          in if out \<noteq> [] then
               (let parsed = parseFloat out
                in if \<not> isNaN parsed then ret (Return (Some parsed)) else ret Next)
             else ret Next))
       (\<lambda>err. bind
          (logger Debug ''OpenHardwareMonitor WMI query failed (likely not running)''
             (Some err))
          (\<lambda>_. ret Next))"

text \<open>Lines 78 to 98: the ACPI thermal zone over WMI, in tenths of Kelvin.\<close>

definition acpi_strategy :: "cpu_env \<Rightarrow> jsnum option flow comp" where
  "acpi_strategy env =
     try_catch
       (bind (execSync AcpiThermalZoneQuery (acpi_query env)) (\<lambda>stdout.
          case acpi_convert (trim stdout) of
            Some c \<Rightarrow> ret (Return (Some c))
          | None \<Rightarrow> ret Next))
       (\<lambda>err. bind
          (logger Debug ''MSAcpi_ThermalZoneTemperature WMI fallback failed'' (Some err))
          (\<lambda>_. ret Next))"

definition windows_strategies :: "cpu_env \<Rightarrow> jsnum option flow comp" where
  "windows_strategies env =
     and_then (lhm_strategy env) (and_then (ohm_strategy env) (acpi_strategy env))"

subsection \<open>The scan of the kernel thermal zones\<close>

definition zone_type_alts :: "string list" where
  "zone_type_alts = [''cpu'', ''x86_pkg'', ''soc'']"

definition milliCelsiusToCelsius :: "int \<Rightarrow> jsnum" where
  "milliCelsiusToCelsius milli = Fin (of_int milli / 1000)"

text \<open>
  The inner \<open>try\<close> of lines 121 to 132, for a zone whose type matched: the reading of
  \<open>temp\<close> may throw, which the empty \<open>catch\<close> swallows.
\<close>

definition read_zone_temp :: "string outcome \<Rightarrow> jsnum option \<Rightarrow> jsnum option comp" where
  "read_zone_temp tempRead best =
     try_catch
       (bind (call tempRead) (\<lambda>content.
          case parseInt (trim content) of
            Some milli \<Rightarrow> ret (keep_max (milliCelsiusToCelsius milli) best)
          | None \<Rightarrow> ret best))
       (\<lambda>err. ret best)"

text \<open>
  One iteration of the loop of lines 109 to 134; \<open>continue\<close> is returning \<open>best\<close>
  unchanged.
\<close>

definition zone_step :: "zone_entry \<Rightarrow> jsnum option \<Rightarrow> jsnum option comp" where
  "zone_step zone best =
     (case (type_file zone, temp_file zone) of
        (Some typeRead, Some tempRead) \<Rightarrow>
          bind
            (try_catch
               (bind (call typeRead) (\<lambda>content. ret (Some (trim content))))
               (\<lambda>err. ret None))
            (\<lambda>ty. case ty of
               None \<Rightarrow> ret best
             | Some type \<Rightarrow>
                 if regex_alt_i zone_type_alts type then read_zone_temp tempRead best
                 else ret best)
      | _ \<Rightarrow> ret best)"

fun zone_loop :: "zone_entry list \<Rightarrow> jsnum option \<Rightarrow> jsnum option comp" where
  "zone_loop [] best = ret best"
| "zone_loop (zone # zones) best = bind (zone_step zone best) (zone_loop zones)"

text \<open>Lines 102 to 138.\<close>

definition thermal_zone_fallback :: "cpu_env \<Rightarrow> jsnum option flow comp" where
  "thermal_zone_fallback env =
     try_catch
       (case thermal_dir env of
          None \<Rightarrow> ret (Return None)
        | Some readdir \<Rightarrow>
            bind (call readdir) (\<lambda>entries.
              let zones = filter (\<lambda>d. startsWith (zone_name d) ''thermal_zone'') entries
              in bind (zone_loop zones None) (\<lambda>best. ret (Return best))))
       (\<lambda>err. bind
          (logger Warn ''CPU thermal zone fallback failed'' (Some err))
          (\<lambda>_. ret Next))"

text \<open>
  \<open>getCpuTemperature\<close>, lines 10 to 140: \<open>None\<close> is the \<open>null\<close> of the source.
\<close>

definition getCpuTemperature :: "cpu_env \<Rightarrow> jsnum option comp" where
  "getCpuTemperature env =
     finish None
       (and_then (si_strategy env)
         (and_then (if win32 env then windows_strategies env else ret Next)
           (thermal_zone_fallback env)))"


section \<open>The GPU temperature enumerator\<close>

text \<open>
  A graphics controller as the library reports it; a temperature field is \<open>None\<close>
  when its \<open>typeof\<close> is not \<open>'number'\<close>.
\<close>

record controller =
  c_vendor :: string
  c_model :: string
  c_temperatureGpu :: "jsnum option"
  c_temperatureMemory :: "jsnum option"

record GpuTempInfo =
  model :: string
  temperatureGpu :: "jsnum option"
  temperatureMemory :: "jsnum option"
  source :: string

text \<open>\<open>typeof x === 'number' && !Number.isNaN(x) ? x : null\<close>\<close>

definition numberOrNull :: "jsnum option \<Rightarrow> jsnum option" where
  "numberOrNull x = (case x of Some n \<Rightarrow> if \<not> isNaN n then Some n else None | None \<Rightarrow> None)"

text \<open>
  \<open>out.split(/\s*\n\s*/)[0]\<close>, or the empty string when that is empty: the text
  before the first line feed, without the white space that ends it.
\<close>

definition firstLine :: "string \<Rightarrow> string" where
  "firstLine out = trimEnd (takeWhile (\<lambda>c. c \<noteq> CHR 0x0A) out)"

definition isNvidia :: "controller \<Rightarrow> bool" where
  "isNvidia c = regex_alt_i [''nvidia''] (c_vendor c @ '' '' @ c_model c)"

definition modelLabel :: "controller \<Rightarrow> string" where
  "modelLabel c =
     (if c_model c \<noteq> [] then c_model c
      else if c_vendor c \<noteq> [] then c_vendor c
      else ''Unknown GPU'')"

text \<open>
  Lines 167 to 192: from the library's temperature to the pair of \<open>temp\<close> and
  \<open>source\<close>; \<open>smi\<close> is what \<open>nvidia-smi\<close> answers if it is started.
\<close>

definition nvidia_fallback ::
  "controller \<Rightarrow> string outcome \<Rightarrow> jsnum option \<Rightarrow> (jsnum option \<times> string) comp" where
  "nvidia_fallback c smi temp =
     (let source = ''systeminformation''
      in if temp = None \<and> isNvidia c then
           try_catch
             (bind (execSync NvidiaSmiQuery smi) (\<lambda>stdout.
                let out = trim stdout; first = firstLine out
                in case parseInt first of
                     Some parsed \<Rightarrow> ret (Some (Fin (of_int parsed)), ''nvidia-smi'')
                   | None \<Rightarrow> ret (temp, source)))
             (\<lambda>err. bind
                (logger Debug ''nvidia-smi fallback failed'' (Some err))
                (\<lambda>_. ret (temp, source)))
         else ret (temp, source))"

text \<open>The body of the loop, lines 157 to 198: the element pushed for one controller.\<close>

definition gpu_controller :: "controller \<Rightarrow> string outcome \<Rightarrow> GpuTempInfo comp" where
  "gpu_controller c smi =
     (let temp = numberOrNull (c_temperatureGpu c);
          memTemp = numberOrNull (c_temperatureMemory c)
      in bind (nvidia_fallback c smi temp) (\<lambda>(temp, source).
           ret \<lparr> model = modelLabel c,
                 temperatureGpu = temp,
                 temperatureMemory = memTemp,
                 source = source \<rparr>))"

fun gpu_loop :: "(controller \<times> string outcome) list \<Rightarrow> GpuTempInfo list \<Rightarrow> GpuTempInfo list comp"
  where
  "gpu_loop [] result = ret result"
| "gpu_loop ((c, smi) # cs) result =
     bind (gpu_controller c smi) (\<lambda>info. gpu_loop cs (result @ [info]))"

text \<open>
  \<open>getGpuTemperatures\<close>, lines 152 to 204. The environment is what
  \<open>await si.graphics()\<close> does: it rejects, or resolves with the controllers, each given
  here with the answer \<open>nvidia-smi\<close> has when it is started for that controller. The
  only statement of the \<open>try\<close> block that throws is \<open>si.graphics()\<close>, before the first
  \<open>push\<close>, so \<open>result\<close> is still empty in the handler.
\<close>

definition getGpuTemperatures ::
  "(controller \<times> string outcome) list outcome \<Rightarrow> GpuTempInfo list comp" where
  "getGpuTemperatures si_graphics =
     try_catch
       (bind (call si_graphics) (\<lambda>controllers. gpu_loop controllers []))
       (\<lambda>err. bind
          (logger Warn ''systeminformation graphics() failed'' (Some err))
          (\<lambda>_. ret []))"

section \<open>The poll supervisor\<close>

definition intervalMs :: int where
  "intervalMs = 30000"

text \<open>\<open>await new Promise((res) => setTimeout(res, ms))\<close>\<close>

definition setTimeout :: "int \<Rightarrow> unit comp" where
  "setTimeout ms = ([Sleep ms], Returns ())"

text \<open>
  One iteration of the loop of \<open>main\<close>, lines 238 to 248. \<open>clock\<close> is what
  \<open>Date.now()\<close> reads when the iteration starts; \<open>job\<close> is what
  \<open>logSysTemperatures()\<close> does in this tick and \<open>job_ms\<close> the time the \<open>try\<close>
  statement takes, so the second \<open>Date.now()\<close> reads \<open>clock + job_ms\<close>. A timer lasts
  exactly the time it is set to. The result is the clock at the end of the iteration,
  when the next one starts.
\<close>

definition iteration :: "int \<Rightarrow> unit comp \<Rightarrow> int \<Rightarrow> int comp" where
  "iteration clock job job_ms =
     (let started = clock
      in bind (try_catch job (\<lambda>err. logger Error ''Job failed'' (Some err))) (\<lambda>_.
           let now = clock + job_ms;
               elapsed = now - started;
               remaining = intervalMs - elapsed
           in if remaining > 0 then bind (setTimeout remaining) (\<lambda>_. ret (now + remaining))
              else ret now))"

text \<open>
  \<open>while (true)\<close> run on the ticks given, one pair of \<open>job\<close> and \<open>job_ms\<close> each: a
  finite prefix of the run. A throw that leaves an iteration ends the loop and rejects
  \<open>main()\<close>.
\<close>

fun main_loop :: "int \<Rightarrow> (unit comp \<times> int) list \<Rightarrow> int comp" where
  "main_loop clock [] = ret clock"
| "main_loop clock ((job, job_ms) # ticks) =
     bind (iteration clock job job_ms) (\<lambda>clock'. main_loop clock' ticks)"

text \<open>
  Lines 252 to 255: \<open>main().catch((err) => { logger.error('Fatal', err); process.exit(1) })\<close>.
  The result is the exit status, \<open>None\<close> while the process goes on.
\<close>

definition on_main_settled :: "'a comp \<Rightarrow> event list \<times> nat option" where
  "on_main_settled m =
     (case m of
        (t, Throws err) \<Rightarrow> (t @ [Log Error ''Fatal'' (Some err)], Some 1)
      | (t, Returns v) \<Rightarrow> (t, None))"

text \<open>The time awaited in timers, in a trace.\<close>

fun slept :: "event list \<Rightarrow> int" where
  "slept [] = 0"
| "slept (Sleep ms # t) = ms + slept t"
| "slept (e # t) = slept t"


text \<open>Whether a computation ends by throwing.\<close>

definition throws :: "'a comp \<Rightarrow> bool" where
  "throws m = (case snd m of Throws e \<Rightarrow> True | Returns v \<Rightarrow> False)"

section \<open>The GPU enumerator as the specification words it\<close>

text \<open>
  What the library enumeration alone gives for a controller: the model, else the vendor,
  else the placeholder; the library's temperatures when they are numbers other than NaN;
  the default source.
\<close>

definition library_info :: "controller \<Rightarrow> GpuTempInfo" where
  "library_info c =
     \<lparr> model = (if c_model c \<noteq> [] then c_model c
                else if c_vendor c \<noteq> [] then c_vendor c else ''Unknown GPU''),
       temperatureGpu = (case c_temperatureGpu c of
                           Some n \<Rightarrow> if n = NaN then None else Some n | None \<Rightarrow> None),
       temperatureMemory = (case c_temperatureMemory c of
                           Some n \<Rightarrow> if n = NaN then None else Some n | None \<Rightarrow> None),
       source = ''systeminformation'' \<rparr>"

text \<open>
  The condition of the vendor-CLI fallback: the library-reported GPU temperature is absent
  and vendor and model, joined by a space, contain \<open>nvidia\<close> in any case.
\<close>

definition cli_runs :: "controller \<Rightarrow> bool" where
  "cli_runs c =
     (temperatureGpu (library_info c) = None
      \<and> includesStr (toLower (c_vendor c @ '' '' @ c_model c)) ''nvidia'')"

text \<open>
  The integer the vendor CLI supplies: the first line of its output parsed as an integer;
  none when the CLI fails or that line does not start with an integer.
\<close>

definition cli_integer :: "string outcome \<Rightarrow> int option" where
  "cli_integer smi =
     (case smi of
        Throws e \<Rightarrow> None
      | Returns stdout \<Rightarrow> parseInt (firstLine (trim stdout)))"

text \<open>
  The element emitted for a controller: what the library gives, with the temperature
  overwritten and the source marked \<open>nvidia-smi\<close> when the fallback runs and the CLI
  supplies an integer.
\<close>

definition resolved_info :: "controller \<Rightarrow> string outcome \<Rightarrow> GpuTempInfo" where
  "resolved_info c smi =
     (if cli_runs c then
        (case cli_integer smi of
           Some n \<Rightarrow> (library_info c)
             \<lparr> temperatureGpu := Some (Fin (of_int n)), source := ''nvidia-smi'' \<rparr>
         | None \<Rightarrow> library_info c)
      else library_info c)"

text \<open>
  What the fallback does for a controller: nothing when it does not run; else it starts
  the CLI once, and logs at debug severity when the CLI fails.
\<close>

definition cli_events :: "controller \<Rightarrow> string outcome \<Rightarrow> event list" where
  "cli_events c smi =
     (if cli_runs c then
        Exec NvidiaSmiQuery
        # (case smi of
             Throws e \<Rightarrow> [Log Debug ''nvidia-smi fallback failed'' (Some e)]
           | Returns stdout \<Rightarrow> [])
      else [])"

section \<open>The poll loop as the specification words it\<close>

text \<open>
  What a tick does: the job, the error log when an error escapes the job, and the timer
  for what is left of the interval when the job took less than the interval.
\<close>

definition tick_trace :: "unit comp \<Rightarrow> int \<Rightarrow> event list" where
  "tick_trace job job_ms =
     fst job
     @ (case snd job of
          Throws err \<Rightarrow> [Log Error ''Job failed'' (Some err)]
        | Returns u \<Rightarrow> [])
     @ (if job_ms < intervalMs then [Sleep (intervalMs - job_ms)] else [])"

section \<open>The thermal-zone scan as the specification words it\<close>

text \<open>
  The sample of a zone, its type label and its milli-Celsius integer: there is one when
  both files exist and are readable and \<open>temp\<close> starts with an integer.
\<close>

definition zone_sample :: "zone_entry \<Rightarrow> (string \<times> int) option" where
  "zone_sample z =
     (case (type_file z, temp_file z) of
        (Some (Returns ty), Some (Returns tmp)) \<Rightarrow>
          (case parseInt (trim tmp) of
             Some milli \<Rightarrow> Some (trim ty, milli)
           | None \<Rightarrow> None)
      | _ \<Rightarrow> None)"

text \<open>A zone is kept when its type label contains cpu, x86_pkg or soc, in any case.\<close>

definition zone_kept :: "string \<Rightarrow> bool" where
  "zone_kept ty =
     (includesStr (toLower ty) ''cpu'' \<or> includesStr (toLower ty) ''x86_pkg''
      \<or> includesStr (toLower ty) ''soc'')"

text \<open>The readings of the kept zones, in degrees Celsius: milli-Celsius divided by 1000.\<close>

definition kept_readings :: "zone_entry list \<Rightarrow> rat list" where
  "kept_readings zones =
     concat (map (\<lambda>z. case zone_sample z of
                         Some (ty, milli) \<Rightarrow> if zone_kept ty then [of_int milli / 1000] else []
                       | None \<Rightarrow> []) zones)"

text \<open>The maximum of the readings; absent when there is none.\<close>

definition maximum :: "rat list \<Rightarrow> jsnum option" where
  "maximum rs = (if rs = [] then None else Some (Fin (Max (set rs))))"

section \<open>The JSON walk as the specification words it\<close>

text \<open>
  The values of the nodes of the tree (an object and, recursively, the elements of its
  \<open>Children\<close>) whose label matches and whose value is a number.
\<close>

function matching_values :: "json \<Rightarrow> jsnum list"
  and matching_values_list :: "json list \<Rightarrow> jsnum list" where
  "matching_values node =
     (case node of
        JObj fs \<Rightarrow>
          (if label_matches (map_of fs ''Text'') then
             (case map_of fs ''Value'' of Some (JNum v) \<Rightarrow> [v] | _ \<Rightarrow> [])
           else [])
          @ (case map_of fs ''Children'' of
               Some (JArr cs) \<Rightarrow> matching_values_list cs
             | _ \<Rightarrow> [])
      | _ \<Rightarrow> [])"
| "matching_values_list [] = []"
| "matching_values_list (c # cs) = matching_values c @ matching_values_list cs"
  by pat_completeness auto
termination
proof -
  have sz: "size v < Suc (size_list (size_prod (\<lambda>_. 0) size) fs)"
    if "map_of fs k = Some v" for fs :: "(string \<times> json) list" and k v
    using that by (induction fs) (auto split: if_splits)
  show ?thesis
    by (relation "measure (\<lambda>x. case x of Inl n \<Rightarrow> size n | Inr cs \<Rightarrow> size_list size cs)")
       (auto dest: sz)
qed

text \<open>\<open>m\<close> is a maximum of the list: it occurs in it and no element is greater.\<close>

definition is_max_of :: "jsnum \<Rightarrow> jsnum list \<Rightarrow> bool" where
  "is_max_of m vs = (m \<in> set vs \<and> (\<forall>v \<in> set vs. \<not> js_gt v m))"

section \<open>The probe chain as the specification words it\<close>

text \<open>A strategy yields \<open>v\<close> when it ends the resolver with the value \<open>v\<close>.\<close>

definition yields :: "(cpu_env \<Rightarrow> jsnum option flow comp) \<Rightarrow> cpu_env \<Rightarrow> jsnum \<Rightarrow> bool" where
  "yields strategy env v = (snd (strategy env) = Returns (Return (Some v)))"

text \<open>
  The strategies in their order: the library, on Windows the exported JSON, the
  OpenHardwareMonitor sensors and the ACPI thermal zone, and last the thermal-zone scan.
\<close>

definition probe_chain :: "cpu_env \<Rightarrow> (cpu_env \<Rightarrow> jsnum option flow comp) list" where
  "probe_chain env =
     [si_strategy]
     @ (if win32 env then [lhm_strategy, ohm_strategy, acpi_strategy] else [])
     @ [thermal_zone_fallback]"

text \<open>The value of the first strategy of a list that yields one.\<close>

fun first_yield :: "cpu_env \<Rightarrow> (cpu_env \<Rightarrow> jsnum option flow comp) list \<Rightarrow> jsnum option" where
  "first_yield env [] = None"
| "first_yield env (s # ss) =
     (case snd (s env) of
        Returns (Return (Some v)) \<Rightarrow> Some v
      | _ \<Rightarrow> first_yield env ss)"

section \<open>Laws of the effect combinators\<close>

lemma bind_ret [simp]: "bind (ret v) f = f v"
  by (simp add: bind_def ret_def split: prod.splits)

lemma bind_Returns [simp]: "bind (t, Returns v) f = (t @ fst (f v), snd (f v))"
  by (simp add: bind_def split: prod.splits)

lemma bind_Throws [simp]: "bind (t, Throws e) f = (t, Throws e)"
  by (simp add: bind_def)

lemma try_catch_Returns [simp]: "try_catch (t, Returns v) h = (t, Returns v)"
  by (simp add: try_catch_def)

lemma try_catch_Throws [simp]: "try_catch (t, Throws e) h = (t @ fst (h e), snd (h e))"
  by (simp add: try_catch_def split: prod.splits)

lemma slept_append [simp]: "slept (a @ b) = slept a + slept b"
  by (induction a rule: slept.induct) simp_all

lemma throws_simps [simp]:
  "throws (t, Returns v) = False" "throws (t, Throws e) = True"
  by (simp_all add: throws_def)

lemma and_then_Return [simp]: "and_then (t, Returns (Return v)) k = (t, Returns (Return v))"
  by (simp add: and_then_def ret_def)

lemma and_then_Next [simp]: "and_then (t, Returns Next) k = (t @ fst k, snd k)"
  by (simp add: and_then_def)

lemma finish_Return [simp]: "finish d (t, Returns (Return v)) = (t, Returns v)"
  by (simp add: finish_def ret_def)

lemma finish_Next [simp]: "finish d (t, Returns Next) = (t, Returns d)"
  by (simp add: finish_def ret_def)

lemma snd_bind_prefix: "snd (bind (t @ fst m, snd m) f) = snd (bind m f)"
  by (cases m; cases "snd m") simp_all

declare walk.simps [simp del] matching_values.simps [simp del]

section \<open>The poll supervisor: drift correction\<close>

lemma job_caught:
  "try_catch job (\<lambda>err. logger Error ''Job failed'' (Some err)) =
     (case job of
        (t, Returns v) \<Rightarrow> (t, Returns ())
      | (t, Throws err) \<Rightarrow> (t @ [Log Error ''Job failed'' (Some err)], Returns ()))"
  by (cases job; cases "snd job") (auto simp: logger_def)

text \<open>
  C9. In every iteration of the poll loop the time awaited before the next tick is
  \<open>max 0 (intervalMs - elapsed)\<close>, where \<open>elapsed\<close>, the difference of the two clock
  readings, is \<open>job_ms\<close>; when \<open>elapsed\<close> is at least the interval no timer is set at
  all (the trace of the iteration is that of the guarded job), and the iteration ends
  \<open>max 0 (intervalMs - elapsed)\<close> after the job.
\<close>

theorem iteration_sleeps_remainder:
  "slept (fst (iteration clock job job_ms)) = slept (fst job) + max 0 (intervalMs - job_ms)
   \<and> (intervalMs \<le> job_ms \<longrightarrow>
        fst (iteration clock job job_ms) =
          fst (try_catch job (\<lambda>err. logger Error ''Job failed'' (Some err))))
   \<and> snd (iteration clock job job_ms) = Returns (clock + job_ms + max 0 (intervalMs - job_ms))"
  unfolding iteration_def Let_def job_caught
  by (cases job; cases "snd job") (auto simp: setTimeout_def ret_def)

theorem iteration_sleeps_remainder_witness:
  "intervalMs \<le> 40000
   \<and> fst (iteration 0 ([], Returns ()) 40000) = []
   \<and> slept (fst (iteration 0 ([], Returns ()) 40000)) = 0
   \<and> slept (fst (iteration 0 ([], Returns ()) 12000)) = 18000"
  using iteration_sleeps_remainder [of 0 "([], Returns ())" 40000]
        iteration_sleeps_remainder [of 0 "([], Returns ())" 12000]
  by (simp add: intervalMs_def)


section \<open>The poll supervisor: a failing tick\<close>

lemma iteration_returns:
  "iteration clock job job_ms =
     (fst (iteration clock job job_ms), Returns (clock + max intervalMs job_ms))"
  unfolding iteration_def Let_def job_caught
  by (cases job; cases "snd job") (auto simp: setTimeout_def ret_def)

lemma main_loop_returns: "\<not> throws (main_loop clock ticks)"
proof (induction ticks arbitrary: clock)
  case Nil
  show ?case by (simp add: throws_def ret_def)
next
  case (Cons tk ticks)
  obtain job job_ms where tk: "tk = (job, job_ms)" by (cases tk)
  have "main_loop clock (tk # ticks) =
          bind (fst (iteration clock job job_ms), Returns (clock + max intervalMs job_ms))
               (\<lambda>clock'. main_loop clock' ticks)"
    using iteration_returns [of clock job job_ms] by (simp add: tk)
  then show ?case
    using Cons.IH [of "clock + max intervalMs job_ms"] by (simp add: throws_def)
qed

lemma iteration_eq:
  "iteration clock job job_ms = (tick_trace job job_ms, Returns (clock + max intervalMs job_ms))"
  unfolding iteration_def Let_def job_caught tick_trace_def
  by (cases job; cases "snd job") (auto simp: setTimeout_def ret_def)

lemma main_loop_Cons:
  "main_loop clock ((job, job_ms) # ticks) =
     (tick_trace job job_ms @ fst (main_loop (clock + max intervalMs job_ms) ticks),
      snd (main_loop (clock + max intervalMs job_ms) ticks))"
  by (simp add: iteration_eq)

lemma main_loop_eq:
  "main_loop clock ticks =
     (concat (map (\<lambda>(job, job_ms). tick_trace job job_ms) ticks),
      Returns (clock + sum_list (map (\<lambda>(job, job_ms). max intervalMs job_ms) ticks)))"
proof (induction ticks arbitrary: clock)
  case Nil
  show ?case by (simp add: ret_def)
next
  case (Cons tk ticks)
  obtain job job_ms where tk: "tk = (job, job_ms)" by (cases tk)
  show ?case
    unfolding tk main_loop_Cons Cons.IH by (simp add: add.assoc)
qed

text \<open>
  C3, as amended. An error that escapes the job of a tick is caught in the iteration and
  logged at error severity with the error attached; the iteration returns, and the next
  tick starts \<open>max intervalMs elapsed\<close> after the start of the failing one, which is
  the fixed interval after it whenever the failing tick took no longer than the
  interval. The loop does not stop there: after a failing tick it runs the ticks that
  follow, from that clock on, and its whole trace is the trace of every tick in turn.
  Whatever the ticks do, the loop never throws, so \<open>main()\<close> is not rejected and the
  exit handler does not run; a rejection of \<open>main()\<close> is logged as fatal and exits with
  status 1.
\<close>

theorem failing_tick_keeps_cadence:
  "iteration clock (t, Throws err) job_ms =
     (t @ [Log Error ''Job failed'' (Some err)]
        @ (if job_ms < intervalMs then [Sleep (intervalMs - job_ms)] else []),
      Returns (clock + max intervalMs job_ms))
   \<and> (job_ms \<le> intervalMs \<longrightarrow>
        snd (iteration clock (t, Throws err) job_ms) = Returns (clock + intervalMs))
   \<and> main_loop clock (((t, Throws err), job_ms) # ticks) =
       (t @ [Log Error ''Job failed'' (Some err)]
          @ (if job_ms < intervalMs then [Sleep (intervalMs - job_ms)] else [])
          @ fst (main_loop (clock + max intervalMs job_ms) ticks),
        snd (main_loop (clock + max intervalMs job_ms) ticks))
   \<and> main_loop clock ticks =
       (concat (map (\<lambda>(job, job_ms). tick_trace job job_ms) ticks),
        Returns (clock + sum_list (map (\<lambda>(job, job_ms). max intervalMs job_ms) ticks)))
   \<and> \<not> throws (main_loop clock ticks)
   \<and> on_main_settled (main_loop clock ticks) = (fst (main_loop clock ticks), None)
   \<and> on_main_settled (t, Throws err :: unit outcome) =
       (t @ [Log Error ''Fatal'' (Some err)], Some 1)"
proof -
  have a: "iteration clock (t, Throws err) job_ms =
     (t @ [Log Error ''Job failed'' (Some err)]
        @ (if job_ms < intervalMs then [Sleep (intervalMs - job_ms)] else []),
      Returns (clock + max intervalMs job_ms))"
    by (simp add: iteration_eq tick_trace_def)
  have b: "job_ms \<le> intervalMs \<longrightarrow>
        snd (iteration clock (t, Throws err) job_ms) = Returns (clock + intervalMs)"
    by (simp add: a)
  have c: "main_loop clock (((t, Throws err), job_ms) # ticks) =
       (t @ [Log Error ''Job failed'' (Some err)]
          @ (if job_ms < intervalMs then [Sleep (intervalMs - job_ms)] else [])
          @ fst (main_loop (clock + max intervalMs job_ms) ticks),
        snd (main_loop (clock + max intervalMs job_ms) ticks))"
    unfolding main_loop_Cons by (simp add: tick_trace_def)
  note d = main_loop_eq [of clock ticks]
  have e: "\<not> throws (main_loop clock ticks)" by (rule main_loop_returns)
  have f: "on_main_settled (main_loop clock ticks) = (fst (main_loop clock ticks), None)"
    unfolding d by (simp add: on_main_settled_def)
  have g: "on_main_settled (t, Throws err :: unit outcome) =
       (t @ [Log Error ''Fatal'' (Some err)], Some 1)"
    by (simp add: on_main_settled_def)
  show ?thesis using a b c d e f g by blast
qed

theorem failing_tick_keeps_cadence_witness:
  "(5::int) \<le> intervalMs
   \<and> snd (iteration 1000 ([], Throws (Exn ''boom'')) 5) = Returns (1000 + intervalMs)
   \<and> iteration 1000 ([], Throws (Exn ''boom'')) 5 =
       ([Log Error ''Job failed'' (Some (Exn ''boom'')), Sleep 29995], Returns 31000)
   \<and> main_loop 1000
        [(([], Throws (Exn ''boom'')), 5),
         (([Log Info ''CPU temperature unavailable'' None], Returns ()), 40000)] =
       ([Log Error ''Job failed'' (Some (Exn ''boom'')), Sleep 29995,
         Log Info ''CPU temperature unavailable'' None],
        Returns 71000)"
proof -
  define ok :: "(unit comp \<times> int) list" where
    "ok = [(([Log Info ''CPU temperature unavailable'' None], Returns ()), 40000)]"
  note th = failing_tick_keeps_cadence [of 1000 "[]" "Exn ''boom''" 5 ok]
  have i: "(5::int) \<le> intervalMs" by (simp add: intervalMs_def)
  have s: "snd (iteration 1000 ([], Throws (Exn ''boom'')) 5) = Returns (1000 + intervalMs)"
    using th [THEN conjunct2, THEN conjunct1] i by simp
  have a: "iteration 1000 ([], Throws (Exn ''boom'')) 5 =
       ([Log Error ''Job failed'' (Some (Exn ''boom'')), Sleep 29995], Returns 31000)"
    using th [THEN conjunct1] by (simp add: intervalMs_def)
  have r: "main_loop 31000 ok = ([Log Info ''CPU temperature unavailable'' None], Returns 71000)"
    by (simp add: ok_def iteration_def Let_def ret_def intervalMs_def)
  have m: "main_loop 1000 ((([], Throws (Exn ''boom'')), 5) # ok) =
       ([Log Error ''Job failed'' (Some (Exn ''boom'')), Sleep 29995,
         Log Info ''CPU temperature unavailable'' None],
        Returns 71000)"
    using th [THEN conjunct2, THEN conjunct2, THEN conjunct1] r
    by (simp add: intervalMs_def)
  show ?thesis using i s a m unfolding ok_def by (intro conjI)
qed

text \<open>
  C3 as stated fails for a failing tick that takes longer than the interval: one that
  starts at 0 and takes 40000 ms is followed at once by the next tick, at 40000 and not
  at 30000.
\<close>

theorem slow_failing_tick_counterexample:
  "snd (iteration 0 ([], Throws (Exn ''boom'')) 40000) = Returns 40000
   \<and> Returns 40000 \<noteq> Returns (0 + intervalMs)"
  by (simp add: iteration_def Let_def logger_def setTimeout_def ret_def intervalMs_def)

section \<open>Binary64 rounding: exponent, error, evaluation\<close>

lemma parseInt_3281: "parseInt ''3281'' = Some 3281"
  by (simp add: parseInt_def trimStart_def is_space_def is_digit_def digit_of_def)

lemma ilog2_bounds:
  assumes "0 < q"
  shows "2 powi (ilog2 q) \<le> q" and "q < 2 powi (ilog2 q + 1)"
proof -
  obtain a b where ab: "quotient_of q = (a, b)" by (cases "quotient_of q")
  have b: "0 < b" using ab quotient_of_denom_pos by blast
  have q: "q = of_int a / of_int b" using ab quotient_of_div by blast
  have a: "0 < a" using assms b q by (simp add: zero_less_divide_iff)
  define la where "la = bitlen a"
  define lb where "lb = bitlen b"
  have la1: "1 \<le> la" and lb1: "1 \<le> lb"
    using a b by (auto simp: la_def lb_def bitlen_alt_def)
  have "2 ^ nat (la - 1) \<le> a" "a < 2 ^ nat la" "2 ^ nat (lb - 1) \<le> b" "b < 2 ^ nat lb"
    using bitlen_bounds [OF a] bitlen_bounds [OF b] by (simp_all add: la_def lb_def)
  then have ra: "(2::rat) ^ nat (la - 1) \<le> of_int a" "(of_int a :: rat) < 2 ^ nat la"
    and rb: "(2::rat) ^ nat (lb - 1) \<le> of_int b" "(of_int b :: rat) < 2 ^ nat lb"
    by (metis of_int_le_iff of_int_less_iff of_int_numeral of_int_power)+
  have pa: "(2::rat) powi (la - 1) \<le> of_int a" "(of_int a :: rat) < 2 powi la"
    and pb: "(2::rat) powi (lb - 1) \<le> of_int b" "(of_int b :: rat) < 2 powi lb"
    using ra rb la1 lb1 by (simp_all add: power_int_def)
  have bpos: "(0::rat) < of_int b" using b by simp
  have up: "q < 2 powi (la - lb + 1)"
  proof -
    have "of_int a < (2::rat) powi (la - lb + 1) * 2 powi (lb - 1)"
      using pa(2) by (simp add: power_int_add [symmetric])
    also have "\<dots> \<le> 2 powi (la - lb + 1) * of_int b"
      using pb(1) by (simp add: mult_left_mono)
    finally show ?thesis using bpos by (simp add: q pos_divide_less_eq)
  qed
  have lo: "2 powi (la - lb - 1) < q"
  proof -
    have "(2::rat) powi (la - lb - 1) * of_int b < 2 powi (la - lb - 1) * 2 powi lb"
      using pb(2) by (simp add: mult_strict_left_mono)
    also have "\<dots> = 2 powi (la - 1)"
      by (simp add: power_int_add [symmetric])
    also have "\<dots> \<le> of_int a" using pa(1) .
    finally show ?thesis using bpos by (simp add: q pos_less_divide_eq)
  qed
  have e: "ilog2 q = (if 2 powi (la - lb) \<le> q then la - lb else la - lb - 1)"
    by (simp add: ilog2_def ab la_def lb_def)
  show "2 powi (ilog2 q) \<le> q"
    using lo by (auto simp: e)
  show "q < 2 powi (ilog2 q + 1)"
    using up by (auto simp: e not_le)
qed

lemma ilog2_unique:
  assumes "2 powi e \<le> q" "q < 2 powi (e + 1)"
  shows "ilog2 q = e"
proof -
  have q: "0 < q"
    using assms(1) zero_less_power_int [of "2::rat" e] by linarith
  note b = ilog2_bounds [OF q]
  have lt: "(2::rat) powi e < 2 powi (ilog2 q + 1)" using assms(1) b(2) by linarith
  have 1: "e < ilog2 q + 1"
  proof (rule ccontr)
    assume "\<not> e < ilog2 q + 1"
    then have "(2::rat) powi (ilog2 q + 1) \<le> 2 powi e"
      by (intro power_int_increasing) simp_all
    then show False using lt by linarith
  qed
  have lt': "(2::rat) powi (ilog2 q) < 2 powi (e + 1)" using assms(2) b(1) by linarith
  have 2: "ilog2 q < e + 1"
  proof (rule ccontr)
    assume "\<not> ilog2 q < e + 1"
    then have "(2::rat) powi (e + 1) \<le> 2 powi (ilog2 q)"
      by (intro power_int_increasing) simp_all
    then show False using lt' by linarith
  qed
  show ?thesis using 1 2 by linarith
qed


lemma round_half_even_near: "\<bar>of_int (round_half_even x) - x\<bar> \<le> 1 / 2"
proof -
  define f where "f = \<lfloor>x\<rfloor>"
  have "of_int f \<le> x" "x < of_int f + 1" unfolding f_def by linarith+
  then show ?thesis
    unfolding round_half_even_def Let_def f_def [symmetric]
    by (auto simp: abs_le_iff)
qed

lemma round_half_even_unique:
  assumes "\<bar>x - of_int m\<bar> < 1 / 2"
  shows "round_half_even x = m"
proof -
  have "\<bar>(of_int (round_half_even x) :: rat) - of_int m\<bar> < 1"
    using round_half_even_near [of x] assms by linarith
  then have "\<bar>round_half_even x - m\<bar> < 1"
    by (metis of_int_1 of_int_abs of_int_diff of_int_less_iff)
  then show ?thesis by linarith
qed

lemma round_half_even_nonneg: "0 \<le> x \<Longrightarrow> 0 \<le> round_half_even x"
  unfolding round_half_even_def Let_def by auto

lemma binary64_minus: "binary64 (- q) = - binary64 q"
  by (simp add: binary64_def Let_def)

lemma binary64_sign: "0 \<le> q \<Longrightarrow> 0 \<le> binary64 q"
proof (cases "q = 0")
  case True
  then show ?thesis by (simp add: binary64_def)
next
  case False
  assume "0 \<le> q"
  then have q: "0 < q" using False by simp
  have "0 \<le> round_half_even (\<bar>q\<bar> / 2 powi (ilog2 \<bar>q\<bar> - 52))"
    by (intro round_half_even_nonneg) simp
  then show ?thesis using q by (simp add: binary64_def Let_def)
qed

lemma binary64_half_ulp:
  assumes "q \<noteq> 0"
  shows "\<bar>binary64 q - q\<bar> \<le> 2 powi (ilog2 \<bar>q\<bar> - 53)"
proof -
  define u :: rat where "u = 2 powi (ilog2 \<bar>q\<bar> - 52)"
  define m where "m = round_half_even (\<bar>q\<bar> / u)"
  have u: "0 < u" by (simp add: u_def)
  have b: "binary64 q = sgn q * of_int m * u"
    using assms by (simp add: binary64_def Let_def u_def m_def)
  have "\<bar>of_int m - \<bar>q\<bar> / u\<bar> \<le> 1 / 2"
    unfolding m_def by (rule round_half_even_near)
  then have "\<bar>of_int m - \<bar>q\<bar> / u\<bar> * u \<le> 1 / 2 * u"
    using u by (intro mult_right_mono) simp_all
  moreover have "of_int m * u - \<bar>q\<bar> = (of_int m - \<bar>q\<bar> / u) * u"
    using u by (simp add: field_simps)
  then have "\<bar>of_int m * u - \<bar>q\<bar>\<bar> = \<bar>of_int m - \<bar>q\<bar> / u\<bar> * u"
    using u by (simp only: abs_mult abs_of_pos)
  ultimately have "\<bar>of_int m * u - \<bar>q\<bar>\<bar> \<le> u / 2"
    by simp
  moreover have "\<bar>binary64 q - q\<bar> = \<bar>of_int m * u - \<bar>q\<bar>\<bar>"
  proof (cases "0 < q")
    case True
    then show ?thesis by (simp add: b)
  next
    case False
    then have "q < 0" using assms by simp
    then show ?thesis by (simp add: b abs_minus_commute)
  qed
  moreover have "u / 2 = 2 powi (ilog2 \<bar>q\<bar> - 53)"
  proof -
    have "(2::rat) powi ((ilog2 \<bar>q\<bar> - 53) + 1) = 2 powi (ilog2 \<bar>q\<bar> - 53) * 2"
      by (rule power_int_add_1) simp
    moreover have "(ilog2 \<bar>q\<bar> - 53) + 1 = ilog2 \<bar>q\<bar> - 52" by simp
    ultimately have "u = 2 powi (ilog2 \<bar>q\<bar> - 53) * 2"
      unfolding u_def by (simp only:)
    then show ?thesis by simp
  qed
  ultimately show ?thesis by simp
qed

lemma binary64_relative: "\<bar>binary64 q - q\<bar> \<le> \<bar>q\<bar> / 2 ^ 53"
proof (cases "q = 0")
  case True
  then show ?thesis by (simp add: binary64_def)
next
  case False
  then have q: "0 < \<bar>q\<bar>" by simp
  have "(2::rat) powi (ilog2 \<bar>q\<bar> - 53) = 2 powi (ilog2 \<bar>q\<bar>) / 2 ^ 53"
    by (simp add: power_int_diff)
  also have "\<dots> \<le> \<bar>q\<bar> / 2 ^ 53"
    using ilog2_bounds(1) [OF q] by (simp add: divide_right_mono)
  finally show ?thesis using binary64_half_ulp [OF False] by linarith
qed

lemma binary64_eval:
  assumes "2 powi e \<le> q" "q < 2 powi (e + 1)"
    and "\<bar>q / 2 powi (e - 52) - of_int m\<bar> < 1 / 2"
  shows "binary64 q = of_int m * 2 powi (e - 52)"
proof -
  have q: "0 < q"
    using assms(1) zero_less_power_int [of "2::rat" e] by linarith
  have e: "ilog2 q = e"
    by (rule ilog2_unique [OF assms(1) assms(2)])
  have "round_half_even (q / 2 powi (e - 52)) = m"
    using round_half_even_unique assms(3) by simp
  then show ?thesis using q by (simp add: binary64_def Let_def e)
qed


section \<open>The conversion from tenths of Kelvin\<close>

lemma kelvinOffset_eq: "kelvinOffset = 4805305618032230 / 2 ^ 44"
  unfolding kelvinOffset_def
  using binary64_eval [of 8 "27315 / 100" 4805305618032230] by simp

lemma binary64_328_1: "binary64 (3281 / 10) = 5771996241172890 / 2 ^ 44"
  using binary64_eval [of 8 "3281 / 10" 5771996241172890] by simp

lemma binary64_270: "binary64 270 = 270"
  using binary64_eval [of 8 270 4749890231992320] by simp

lemma binary64_55: "binary64 55 = 55"
  using binary64_eval [of 5 55 7740561859543040] by simp

lemma binary64_150: "binary64 150 = 150"
  using binary64_eval [of 7 150 5277655813324800] by simp

lemma binary64_50: "binary64 50 = 50"
  using binary64_eval [of 5 50 7036874417766400] by simp

lemma deciKelvinToCelsius_3281:
  "deciKelvinToCelsius 3281 = 241672655785165 / 4398046511104"
proof -
  have d: "binary64 (3281 / 10) - kelvinOffset = 241672655785165 / 4398046511104"
    by (simp add: kelvinOffset_eq binary64_328_1)
  have r: "binary64 (241672655785165 / 4398046511104) = 241672655785165 / 4398046511104"
    using binary64_eval [of 5 "241672655785165 / 4398046511104" 7733524985125280] by simp
  have "deciKelvinToCelsius 3281 = binary64 (binary64 (3281 / 10) - kelvinOffset)"
    by (simp add: deciKelvinToCelsius_def)
  also have "\<dots> = binary64 (241672655785165 / 4398046511104)"
    by (simp only: d)
  finally show ?thesis by (simp only: r)
qed

lemma deciKelvinToCelsius_2700:
  "deciKelvinToCelsius 2700 = - (27707693019955 / 8796093022208)"
proof -
  have d: "binary64 270 - kelvinOffset = - (27707693019955 / 8796093022208)"
    by (simp add: kelvinOffset_eq binary64_270)
  have r: "binary64 (27707693019955 / 8796093022208) = 27707693019955 / 8796093022208"
    using binary64_eval [of 1 "27707693019955 / 8796093022208" 7093169413108480] by simp
  have "deciKelvinToCelsius 2700 = binary64 (binary64 270 - kelvinOffset)"
    by (simp add: deciKelvinToCelsius_def)
  also have "\<dots> = binary64 (- (27707693019955 / 8796093022208))"
    by (simp only: d)
  also have "\<dots> = - binary64 (27707693019955 / 8796093022208)"
    by (rule binary64_minus)
  finally show ?thesis by (simp only: r)
qed

lemma toFixed1_3281: "toFixed1 (241672655785165 / 4398046511104) = 55"
proof -
  have "\<lfloor>(241672655785165 / 4398046511104 :: rat) * 10 + 1 / 2\<rfloor> = 550"
    by (rule floor_unique) simp_all
  then show ?thesis by (simp add: toFixed1_def)
qed

lemma toFixed1_2700: "toFixed1 (- (27707693019955 / 8796093022208)) = - (31 / 10)"
proof -
  have "\<lfloor>(27707693019955 / 8796093022208 :: rat) * 10 + 1 / 2\<rfloor> = 31"
    by (rule floor_unique) simp_all
  then show ?thesis by (simp add: toFixed1_def)
qed

lemma acpi_convert_3281: "acpi_convert ''3281'' = Some (Fin 55)"
  by (simp add: acpi_convert_def parseInt_3281 deciKelvinToCelsius_3281 toFixed1_3281
      binary64_55)


lemma binary64_relative_bounds:
  "binary64 q - q \<le> \<bar>q\<bar> / 2 ^ 53" "q - binary64 q \<le> \<bar>q\<bar> / 2 ^ 53"
  using binary64_relative [of q] unfolding abs_le_iff by simp_all

lemma deciKelvinToCelsius_bounds:
  assumes "0 < val"
  shows "deciKelvinToCelsius val - (of_int val / 10 - 27315 / 100)
           \<le> (of_int val / 10 + 27315 / 100) / 2 ^ 51"
    and "(of_int val / 10 - 27315 / 100) - deciKelvinToCelsius val
           \<le> (of_int val / 10 + 27315 / 100) / 2 ^ 51"
proof -
  define A :: rat where "A = of_int val / 10"
  define a where "a = binary64 A"
  define d where "d = kelvinOffset"
  define c where "c = binary64 (a - d)"
  have A: "0 < A" using assms by (simp add: A_def)
  have h1: "a - A \<le> A / 9007199254740992" "A - a \<le> A / 9007199254740992"
    using binary64_relative_bounds [of A] A by (simp_all add: a_def)
  have h2: "d - 27315 / 100 \<le> (27315 / 100) / 9007199254740992"
    "27315 / 100 - d \<le> (27315 / 100) / 9007199254740992"
    using binary64_relative_bounds [of "27315 / 100"] by (simp_all add: d_def kelvinOffset_def)
  have d: "0 \<le> d" unfolding d_def kelvinOffset_def by (rule binary64_sign) simp
  have a: "0 \<le> a" unfolding a_def using A by (intro binary64_sign) simp
  have x: "\<bar>a - d\<bar> \<le> a + d" using a d by linarith
  have h3: "c - (a - d) \<le> a / 9007199254740992 + d / 9007199254740992"
    "(a - d) - c \<le> a / 9007199254740992 + d / 9007199254740992"
    using binary64_relative_bounds [of "a - d"] x
    by (simp_all add: c_def add_divide_distrib [symmetric])
  have "c - (A - 27315 / 100)
          \<le> A / 2251799813685248 + (27315 / 100) / 2251799813685248"
    using h1 h2 h3 A by linarith
  then have "c - (A - 27315 / 100) \<le> (A + 27315 / 100) / 2251799813685248"
    by (simp add: add_divide_distrib)
  moreover have "(A - 27315 / 100) - c
          \<le> A / 2251799813685248 + (27315 / 100) / 2251799813685248"
    using h1 h2 h3 A by linarith
  then have "(A - 27315 / 100) - c \<le> (A + 27315 / 100) / 2251799813685248"
    by (simp add: add_divide_distrib)
  ultimately show "deciKelvinToCelsius val - (of_int val / 10 - 27315 / 100)
           \<le> (of_int val / 10 + 27315 / 100) / 2 ^ 51"
    and "(of_int val / 10 - 27315 / 100) - deciKelvinToCelsius val
           \<le> (of_int val / 10 + 27315 / 100) / 2 ^ 51"
    by (simp_all add: deciKelvinToCelsius_def c_def a_def d_def A_def)
qed

lemma acpi_accept_iff:
  assumes "0 < val"
  shows "(- 50 < deciKelvinToCelsius val \<and> deciKelvinToCelsius val < 150)
           = (2232 \<le> val \<and> val \<le> 4231)"
proof -
  define A :: rat where "A = of_int val / 10"
  define c where "c = deciKelvinToCelsius val"
  have e: "c - (A - 27315 / 100) \<le> (A + 27315 / 100) / 2251799813685248"
    "(A - 27315 / 100) - c \<le> (A + 27315 / 100) / 2251799813685248"
    using deciKelvinToCelsius_bounds [OF assms] by (simp_all add: c_def A_def)
  have A: "0 < A" using assms by (simp add: A_def)
  have X: "(A + 27315 / 100) / 2251799813685248
             = A / 2251799813685248 + (27315 / 100) / 2251799813685248"
    by (simp add: add_divide_distrib)
  consider "val \<le> 2231" | "2232 \<le> val" "val \<le> 4231" | "4232 \<le> val" by linarith
  then have "(- 50 < c \<and> c < 150) = (2232 \<le> val \<and> val \<le> 4231)"
  proof cases
    case 1
    then have "(of_int val :: rat) \<le> 2231" by (metis of_int_le_iff of_int_numeral)
    then have "A \<le> 2231 / 10" by (simp add: A_def)
    then have "c \<le> - 50" using e A X by linarith
    then show ?thesis using 1 by simp
  next
    case 2
    then have "(2232 :: rat) \<le> of_int val" "(of_int val :: rat) \<le> 4231"
      by (metis of_int_le_iff of_int_numeral)+
    then have "2232 / 10 \<le> A" "A \<le> 4231 / 10" by (simp_all add: A_def)
    then have "- 50 < c \<and> c < 150" using e X by linarith
    then show ?thesis using 2 by simp
  next
    case 3
    then have "(4232 :: rat) \<le> of_int val" by (metis of_int_le_iff of_int_numeral)
    then have "4232 / 10 \<le> A" by (simp add: A_def)
    then have "150 \<le> c" using e X by linarith
    then show ?thesis using 3 by simp
  qed
  then show ?thesis by (simp add: c_def)
qed

lemma toFixed1_near: "\<bar>toFixed1 c - c\<bar> \<le> 1 / 20"
proof -
  have fl: "\<bar>of_int \<lfloor>x * 10 + 1 / 2\<rfloor> / 10 - x\<bar> \<le> 1 / 20" for x :: rat
  proof -
    define n where "n = \<lfloor>x * 10 + 1 / 2\<rfloor>"
    have "of_int n \<le> x * 10 + 1 / 2" and "x * 10 + 1 / 2 < of_int n + 1"
      unfolding n_def by linarith+
    then have "\<bar>of_int n / 10 - x\<bar> \<le> 1 / 20"
      unfolding abs_le_iff by linarith
    then show ?thesis by (simp only: n_def)
  qed
  show ?thesis
  proof (cases "c < 0")
    case True
    then have "toFixed1 c - c = - (of_int \<lfloor>(- c) * 10 + 1 / 2\<rfloor> / 10 - (- c))"
      by (simp add: toFixed1_def)
    then have "\<bar>toFixed1 c - c\<bar> = \<bar>of_int \<lfloor>(- c) * 10 + 1 / 2\<rfloor> / 10 - (- c)\<bar>"
      by (simp only: abs_minus_cancel)
    then show ?thesis using fl [of "- c"] by (simp only:)
  next
    case False
    then have "toFixed1 c = of_int \<lfloor>c * 10 + 1 / 2\<rfloor> / 10"
      by (simp add: toFixed1_def)
    then show ?thesis using fl [of c] by (simp only:)
  qed
qed

lemma toFixed1_tenths: "\<exists>k::int. toFixed1 c = of_int k / 10"
  unfolding toFixed1_def
  by (metis minus_divide_left of_int_minus)


lemma toFixed1_range:
  assumes "- 50 < c" "c < 150"
  shows "\<exists>k::int. toFixed1 c = of_int k / 10 \<and> - 500 \<le> k \<and> k \<le> 1500"
proof (cases "c < 0")
  case True
  define n where "n = \<lfloor>(- c) * 10 + 1 / 2\<rfloor>"
  have t: "toFixed1 c = of_int (- n) / 10"
    using True by (simp add: toFixed1_def n_def)
  have "0 \<le> (- c) * 10 + 1 / 2" "(- c) * 10 + 1 / 2 < 501"
    using True assms(1) by linarith+
  then have "0 \<le> n" "n \<le> 500"
    unfolding n_def by linarith+
  then show ?thesis using t by (intro exI [of _ "- n"]) simp
next
  case False
  define n where "n = \<lfloor>c * 10 + 1 / 2\<rfloor>"
  have t: "toFixed1 c = of_int n / 10"
    using False by (simp add: toFixed1_def n_def)
  have "0 \<le> c * 10 + 1 / 2" "c * 10 + 1 / 2 < 1501"
    using False assms(2) by linarith+
  then have "0 \<le> n" "n \<le> 1500"
    unfolding n_def by linarith+
  then show ?thesis using t by (intro exI [of _ n]) simp
qed

lemma binary64_tenths_range:
  assumes "- 500 \<le> k" "k \<le> 1500"
  shows "- 50 \<le> binary64 (of_int k / 10) \<and> binary64 (of_int k / 10) \<le> 150"
proof -
  consider "k = 1500" | "k = - 500" | "- 499 \<le> k" "k \<le> 1499" using assms by linarith
  then show ?thesis
  proof cases
    case 1
    then show ?thesis by (simp add: binary64_150)
  next
    case 2
    then show ?thesis using binary64_minus [of 50] by (simp add: binary64_50)
  next
    case 3
    define t :: rat where "t = of_int k / 10"
    have "(- 499 :: rat) \<le> of_int k" "(of_int k :: rat) \<le> 1499"
      using 3 by (metis of_int_le_iff of_int_minus of_int_numeral)+
    then have t: "- 499 / 10 \<le> t" "t \<le> 1499 / 10" by (simp_all add: t_def)
    then have a: "\<bar>t\<bar> \<le> 150" by (simp add: abs_le_iff)
    have "binary64 t - t \<le> \<bar>t\<bar> / 9007199254740992"
      "t - binary64 t \<le> \<bar>t\<bar> / 9007199254740992"
      using binary64_relative_bounds [of t] by simp_all
    then have "- 50 \<le> binary64 t \<and> binary64 t \<le> 150"
      using t a by linarith
    then show ?thesis by (simp add: t_def)
  qed
qed

lemma acpi_convert_cases:
  "acpi_convert raw =
     (case parseInt raw of
        None \<Rightarrow> None
      | Some val \<Rightarrow>
          if 0 < val \<and> - 50 < deciKelvinToCelsius val \<and> deciKelvinToCelsius val < 150
          then Some (Fin (binary64 (toFixed1 (deciKelvinToCelsius val))))
          else None)"
proof (cases "parseInt raw")
  case None
  then show ?thesis by (simp add: acpi_convert_def)
next
  case (Some val)
  then have "raw \<noteq> []" by (auto simp: parseInt_def trimStart_def)
  then show ?thesis using Some by (simp add: acpi_convert_def Let_def)
qed

lemma acpi_convert_range:
  "acpi_convert raw = Some v \<Longrightarrow> \<exists>c. v = Fin c \<and> - 50 \<le> c \<and> c \<le> 150"
proof -
  assume a: "acpi_convert raw = Some v"
  then obtain val where v: "v = Fin (binary64 (toFixed1 (deciKelvinToCelsius val)))"
    and r: "- 50 < deciKelvinToCelsius val" "deciKelvinToCelsius val < 150"
    unfolding acpi_convert_cases by (auto split: option.splits if_splits)
  obtain k :: int where k: "toFixed1 (deciKelvinToCelsius val) = of_int k / 10"
    "- 500 \<le> k" "k \<le> 1500"
    using toFixed1_range [OF r] by blast
  show ?thesis
    using binary64_tenths_range [OF k(2) k(3)] v k(1) by simp
qed


lemma parseInt_2700: "parseInt ''2700'' = Some 2700"
  by (simp add: parseInt_def trimStart_def is_space_def is_digit_def digit_of_def)

lemma acpi_convert_2700: "acpi_convert ''2700'' = Some (Fin (binary64 (- (31 / 10))))"
proof -
  have "- 50 < deciKelvinToCelsius 2700 \<and> deciKelvinToCelsius 2700 < 150"
    by (simp add: deciKelvinToCelsius_2700)
  then show ?thesis
    unfolding acpi_convert_cases
    by (simp add: parseInt_2700) (simp only: deciKelvinToCelsius_2700 toFixed1_2700)
qed

lemma parseInt_2569: "parseInt ''2569'' = Some 2569"
  by (simp add: parseInt_def trimStart_def is_space_def is_digit_def digit_of_def)

lemma binary64_256_9: "binary64 (2569 / 10) = 4519432594810470 / 2 ^ 44"
  using binary64_eval [of 8 "2569 / 10" 4519432594810470] by simp

lemma binary64_16_25: "binary64 (65 / 4) = 65 / 4"
  using binary64_eval [of 4 "65 / 4" 4573968371548160] by simp

lemma deciKelvinToCelsius_2569: "deciKelvinToCelsius 2569 = - (65 / 4)"
proof -
  have d: "binary64 (2569 / 10) - kelvinOffset = - (65 / 4)"
    by (simp add: kelvinOffset_eq binary64_256_9)
  have "deciKelvinToCelsius 2569 = binary64 (binary64 (2569 / 10) - kelvinOffset)"
    by (simp add: deciKelvinToCelsius_def)
  also have "\<dots> = binary64 (- (65 / 4))"
    by (simp only: d)
  also have "\<dots> = - binary64 (65 / 4)"
    by (rule binary64_minus)
  finally show ?thesis by (simp only: binary64_16_25)
qed

lemma toFixed1_2569: "toFixed1 (- (65 / 4)) = - (163 / 10)"
proof -
  have "\<lfloor>(65 / 4 :: rat) * 10 + 1 / 2\<rfloor> = 163"
    by (rule floor_unique) simp_all
  then show ?thesis by (simp add: toFixed1_def)
qed

lemma acpi_convert_2569: "acpi_convert ''2569'' = Some (Fin (binary64 (- (163 / 10))))"
proof -
  have "- 50 < deciKelvinToCelsius 2569 \<and> deciKelvinToCelsius 2569 < 150"
    by (simp add: deciKelvinToCelsius_2569)
  then show ?thesis
    unfolding acpi_convert_cases
    by (simp add: parseInt_2569) (simp only: deciKelvinToCelsius_2569 toFixed1_2569)
qed

lemma toFixed1_tie: "\<bar>toFixed1 c - c\<bar> = 1 / 20 \<longrightarrow> \<bar>c\<bar> < \<bar>toFixed1 c\<bar>"
proof (cases "c < 0")
  case True
  define f where "f = \<lfloor>(- c) * 10 + 1 / 2\<rfloor>"
  have t: "toFixed1 c = - (of_int f / 10)" using True by (simp add: toFixed1_def f_def)
  have lo: "of_int f \<le> (- c) * 10 + 1 / 2" unfolding f_def by (rule of_int_floor_le)
  have hi: "(- c) * 10 + 1 / 2 < of_int f + 1" unfolding f_def by linarith
  show ?thesis unfolding t using True lo hi by (auto simp: abs_if split: if_splits)
next
  case False
  define f where "f = \<lfloor>c * 10 + 1 / 2\<rfloor>"
  have t: "toFixed1 c = of_int f / 10" using False by (simp add: toFixed1_def f_def)
  have lo: "of_int f \<le> c * 10 + 1 / 2" unfolding f_def by (rule of_int_floor_le)
  have hi: "c * 10 + 1 / 2 < of_int f + 1" unfolding f_def by linarith
  show ?thesis unfolding t using False lo hi by (auto simp: abs_if split: if_splits)
qed

text \<open>
  C2, as amended. The ACPI strategy reads the raw integer as tenths of Kelvin and
  converts it by \<open>C = raw / 10 - 273.15\<close>, computed in binary64 and so within
  \<open>(raw / 10 + 273.15) / 2 ^ 51\<close> of the exact value; it accepts the result exactly when
  it lies strictly between -50 and 150, which it does exactly when the exact value does,
  and returns it rounded to one decimal: the binary64 number nearest to a multiple of
  one tenth at most 0.05 away from the binary64 result, the one larger in magnitude when
  two are equally near. Raw 3281 converts to 54.95 (and \<open>1 / 21990232555520\<close> more) and
  is returned as 55.0; raw 2700 is returned as -3.1; raw 2569 converts to -16.25 exactly
  and is returned as -16.3; raw 0 and negative raw values are rejected, as is an output
  that is no integer.
\<close>

theorem acpi_convert_deci_kelvin:
  "(parseInt raw = None \<longrightarrow> acpi_convert raw = None)
   \<and> (parseInt raw = Some val \<longrightarrow>
        (val \<le> 0 \<longrightarrow> acpi_convert raw = None)
        \<and> (0 < val \<longrightarrow>
             \<bar>deciKelvinToCelsius val - (of_int val / 10 - 273.15)\<bar>
               \<le> (of_int val / 10 + 273.15) / 2 ^ 51
             \<and> ((- 50 < deciKelvinToCelsius val \<and> deciKelvinToCelsius val < 150)
                  = (- 50 < of_int val / 10 - (273.15 :: rat)
                     \<and> of_int val / 10 - (273.15 :: rat) < 150))
             \<and> acpi_convert raw =
                 (if - 50 < deciKelvinToCelsius val \<and> deciKelvinToCelsius val < 150
                  then Some (Fin (binary64 (toFixed1 (deciKelvinToCelsius val))))
                  else None)))
   \<and> \<bar>toFixed1 c - c\<bar> \<le> 1 / 20
   \<and> (\<exists>k::int. toFixed1 c = of_int k / 10)
   \<and> (\<bar>toFixed1 c - c\<bar> = 1 / 20 \<longrightarrow> \<bar>c\<bar> < \<bar>toFixed1 c\<bar>)
   \<and> \<bar>binary64 c - c\<bar> \<le> \<bar>c\<bar> / 2 ^ 53
   \<and> deciKelvinToCelsius 3281 = 54.95 + 1 / 21990232555520
   \<and> acpi_convert ''3281'' = Some (Fin 55)
   \<and> acpi_convert ''2700'' = Some (Fin (binary64 (- 3.1)))
   \<and> deciKelvinToCelsius 2569 = - 16.25
   \<and> acpi_convert ''2569'' = Some (Fin (binary64 (- 16.3)))
   \<and> acpi_convert ''0'' = None
   \<and> acpi_convert ''-3281'' = None"
proof -
  have none: "parseInt raw = None \<longrightarrow> acpi_convert raw = None"
    by (simp add: acpi_convert_cases)
  have nonpos: "acpi_convert raw = None" if "parseInt raw = Some val" "val \<le> 0"
    using that by (simp add: acpi_convert_cases)
  have err: "\<bar>deciKelvinToCelsius val - (of_int val / 10 - 273.15)\<bar>
               \<le> (of_int val / 10 + 273.15) / 2 ^ 51" if "0 < val"
    using deciKelvinToCelsius_bounds [OF that] unfolding abs_le_iff by simp
  have exact: "(- 50 < of_int val / 10 - (273.15 :: rat)
                     \<and> of_int val / 10 - (273.15 :: rat) < 150)
                 = (2232 \<le> val \<and> val \<le> 4231)"
  proof -
    have "(- 50 < of_int val / 10 - (273.15 :: rat)) = (22315 < 10 * (of_int val :: rat))"
      by (simp add: field_simps)
    also have "\<dots> = ((22315::int) < 10 * val)"
      by (metis of_int_less_iff of_int_mult of_int_numeral)
    finally have lo: "(- 50 < of_int val / 10 - (273.15 :: rat)) = (2232 \<le> val)"
      by presburger
    have "(of_int val / 10 - (273.15 :: rat) < 150) = (10 * (of_int val :: rat) < 42315)"
      by (simp add: field_simps)
    also have "\<dots> = (10 * val < (42315::int))"
      by (metis of_int_less_iff of_int_mult of_int_numeral)
    finally have hi: "(of_int val / 10 - (273.15 :: rat) < 150) = (val \<le> 4231)"
      by presburger
    show ?thesis using lo hi by simp
  qed
  have test: "(- 50 < deciKelvinToCelsius val \<and> deciKelvinToCelsius val < 150)
                  = (- 50 < of_int val / 10 - (273.15 :: rat)
                     \<and> of_int val / 10 - (273.15 :: rat) < 150)" if "0 < val"
    using acpi_accept_iff [OF that] exact by simp
  have conv: "acpi_convert raw =
                 (if - 50 < deciKelvinToCelsius val \<and> deciKelvinToCelsius val < 150
                  then Some (Fin (binary64 (toFixed1 (deciKelvinToCelsius val))))
                  else None)" if "parseInt raw = Some val" "0 < val"
    using that by (simp add: acpi_convert_cases)
  have e1: "deciKelvinToCelsius 3281 = 54.95 + 1 / 21990232555520"
    by (simp add: deciKelvinToCelsius_3281)
  have e3: "acpi_convert ''0'' = None"
    by (simp add: acpi_convert_def parseInt_def trimStart_def is_space_def is_digit_def
        digit_of_def)
  have e4: "acpi_convert ''-3281'' = None"
    by (simp add: acpi_convert_def parseInt_def trimStart_def is_space_def is_digit_def
        digit_of_def)
  have e5: "acpi_convert ''2700'' = Some (Fin (binary64 (- 3.1)))"
    using acpi_convert_2700 by simp
  have e6: "deciKelvinToCelsius 2569 = - 16.25"
    by (simp add: deciKelvinToCelsius_2569)
  have e7: "acpi_convert ''2569'' = Some (Fin (binary64 (- 16.3)))"
    using acpi_convert_2569 by simp
  have general: "(parseInt raw = None \<longrightarrow> acpi_convert raw = None)
   \<and> (parseInt raw = Some val \<longrightarrow>
        (val \<le> 0 \<longrightarrow> acpi_convert raw = None)
        \<and> (0 < val \<longrightarrow>
             \<bar>deciKelvinToCelsius val - (of_int val / 10 - 273.15)\<bar>
               \<le> (of_int val / 10 + 273.15) / 2 ^ 51
             \<and> ((- 50 < deciKelvinToCelsius val \<and> deciKelvinToCelsius val < 150)
                  = (- 50 < of_int val / 10 - (273.15 :: rat)
                     \<and> of_int val / 10 - (273.15 :: rat) < 150))
             \<and> acpi_convert raw =
                 (if - 50 < deciKelvinToCelsius val \<and> deciKelvinToCelsius val < 150
                  then Some (Fin (binary64 (toFixed1 (deciKelvinToCelsius val))))
                  else None)))"
    using none nonpos err test conv by blast
  have rounding: "\<bar>toFixed1 c - c\<bar> \<le> 1 / 20
   \<and> (\<exists>k::int. toFixed1 c = of_int k / 10)
   \<and> (\<bar>toFixed1 c - c\<bar> = 1 / 20 \<longrightarrow> \<bar>c\<bar> < \<bar>toFixed1 c\<bar>)
   \<and> \<bar>binary64 c - c\<bar> \<le> \<bar>c\<bar> / 2 ^ 53"
    using toFixed1_near toFixed1_tenths toFixed1_tie binary64_relative by blast
  show ?thesis
    using general rounding e1 acpi_convert_3281 e5 e6 e7 e3 e4
    by blast
qed

theorem acpi_convert_deci_kelvin_witness:
  "parseInt ''2700'' = Some 2700 \<and> (0 :: int) < 2700
   \<and> - 50 < deciKelvinToCelsius 2700 \<and> deciKelvinToCelsius 2700 < 150
   \<and> acpi_convert ''2700'' = Some (Fin (binary64 (toFixed1 (deciKelvinToCelsius 2700))))
   \<and> parseInt ''-5'' = Some (- 5) \<and> (- 5 :: int) \<le> 0 \<and> acpi_convert ''-5'' = None
   \<and> parseInt ''abc'' = None \<and> acpi_convert ''abc'' = None"
proof -
  have p2: "parseInt ''-5'' = Some (- 5)"
    by (simp add: parseInt_def trimStart_def is_space_def is_digit_def digit_of_def)
  have p3: "parseInt ''abc'' = None"
    by (simp add: parseInt_def trimStart_def is_space_def is_digit_def digit_of_def)
  have d: "- 50 < deciKelvinToCelsius 2700 \<and> deciKelvinToCelsius 2700 < 150"
    by (simp add: deciKelvinToCelsius_2700)
  note t1 = acpi_convert_deci_kelvin [of "''2700''" 2700 0, THEN conjunct2, THEN conjunct1]
  note t2 = acpi_convert_deci_kelvin [of "''-5''" "- 5" 0, THEN conjunct2, THEN conjunct1]
  note t3 = acpi_convert_deci_kelvin [of "''abc''" 0 0, THEN conjunct1]
  have r1: "acpi_convert ''2700'' = Some (Fin (binary64 (toFixed1 (deciKelvinToCelsius 2700))))"
    using t1 parseInt_2700 d by simp
  have r2: "acpi_convert ''-5'' = None" using t2 p2 by simp
  have r3: "acpi_convert ''abc'' = None" using t3 p3 by simp
  show ?thesis using parseInt_2700 d r1 p2 r2 p3 r3 by simp
qed

text \<open>
  C2 as stated fails at its own example: raw 3281 is 328.1 K, which converts to 54.95
  and not to 55.05 degrees Celsius, and what is returned is 55.0 and not 55.1.
\<close>

theorem acpi_3281_counterexample:
  "\<bar>deciKelvinToCelsius 3281 - 55.05\<bar> > 9 / 100
   \<and> acpi_convert ''3281'' = Some (Fin 55)
   \<and> (55 :: rat) \<noteq> 55.1
   \<and> 55 \<noteq> binary64 55.1"
proof -
  have a: "\<bar>deciKelvinToCelsius 3281 - 55.05\<bar> > 9 / 100"
    by (simp add: deciKelvinToCelsius_3281)
  have "55.1 - binary64 55.1 \<le> \<bar>55.1 :: rat\<bar> / 2 ^ 53"
    by (rule binary64_relative_bounds)
  then have b: "55 \<noteq> binary64 55.1" by auto
  show ?thesis using a b acpi_convert_3281 by simp
qed

section \<open>The GPU enumerator: the vendor-CLI fallback\<close>

lemma toLower_nvidia: "toLower ''nvidia'' = ''nvidia''"
  by (simp add: toLower_def toLowerChar_def)

lemma cli_runs_iff: "cli_runs c = (numberOrNull (c_temperatureGpu c) = None \<and> isNvidia c)"
  by (auto simp: cli_runs_def library_info_def numberOrNull_def isNaN_def isNvidia_def
      regex_alt_i_def toLower_nvidia split: option.splits)

lemma gpu_controller_eq:
  "gpu_controller c smi =
     (if cli_runs c then
        (case smi of
           Throws e \<Rightarrow>
             ([Exec NvidiaSmiQuery, Log Debug ''nvidia-smi fallback failed'' (Some e)],
              Returns (library_info c))
         | Returns stdout \<Rightarrow>
             (case parseInt (firstLine (trim stdout)) of
                Some n \<Rightarrow>
                  ([Exec NvidiaSmiQuery],
                   Returns ((library_info c)
                     \<lparr> temperatureGpu := Some (Fin (of_int n)), source := ''nvidia-smi'' \<rparr>))
              | None \<Rightarrow> ([Exec NvidiaSmiQuery], Returns (library_info c))))
      else ([], Returns (library_info c)))"
proof -
  have li: "library_info c =
      \<lparr> model = modelLabel c, temperatureGpu = numberOrNull (c_temperatureGpu c),
        temperatureMemory = numberOrNull (c_temperatureMemory c),
        source = ''systeminformation'' \<rparr>"
    by (auto simp: library_info_def modelLabel_def numberOrNull_def isNaN_def
        split: option.splits)
  show ?thesis
    unfolding cli_runs_iff li
    by (cases smi)
       (auto simp: gpu_controller_def nvidia_fallback_def Let_def execSync_def ret_def
          logger_def split: option.splits)
qed

lemma gpu_controller_returns:
  "\<exists>t info. gpu_controller c smi = (t, Returns info) \<and> model info = model (library_info c)"
  unfolding gpu_controller_eq by (auto split: outcome.splits option.splits)

lemma gpu_controller_resolved:
  "gpu_controller c smi = (cli_events c smi, Returns (resolved_info c smi))"
  unfolding gpu_controller_eq cli_events_def resolved_info_def cli_integer_def
  by (simp split: outcome.splits option.splits)

lemma gpu_loop_resolved:
  "gpu_loop cs acc =
     (concat (map (\<lambda>(c, smi). cli_events c smi) cs),
      Returns (acc @ map (\<lambda>(c, smi). resolved_info c smi) cs))"
proof (induction cs arbitrary: acc)
  case Nil
  show ?case by (simp add: ret_def)
next
  case (Cons x cs)
  obtain c smi where x: "x = (c, smi)" by (cases x)
  show ?case
    by (simp add: x gpu_controller_resolved Cons.IH)
qed

lemma getGpuTemperatures_resolved:
  "getGpuTemperatures (Returns cs) =
     (concat (map (\<lambda>(c, smi). cli_events c smi) cs),
      Returns (map (\<lambda>(c, smi). resolved_info c smi) cs))"
  by (simp add: getGpuTemperatures_def call_def gpu_loop_resolved)

lemma cli_events_count:
  "length (filter (\<lambda>e. e = Exec NvidiaSmiQuery)
     (concat (map (\<lambda>(c, smi). cli_events c smi) cs)))
   = length (filter (\<lambda>(c, smi). cli_runs c) cs)"
  by (induction cs) (auto simp: cli_events_def split: outcome.splits)

text \<open>
  C5. For every controller, \<open>nvidia-smi\<close> is started exactly when the library-reported
  GPU temperature is absent and vendor and model together contain \<open>nvidia\<close> in any
  case. When it is started and the first line of its output parses as an integer, the
  temperature is that integer and the source is \<open>nvidia-smi\<close>; when it fails or the
  line is no integer, the temperature stays absent and the source stays the default.
  The enumerator does this for every controller of the enumeration, in order: its trace
  is the trace of each controller in turn, it starts the CLI once for each controller
  for which the fallback runs, and its result holds the element of each controller.
  A controller NVIDIA, RTX X without temperature and a CLI answering 67 and a line feed
  give the model RTX X, the temperature 67 and the source \<open>nvidia-smi\<close>.
\<close>

theorem vendor_cli_fallback:
  "(Exec NvidiaSmiQuery \<in> set (fst (gpu_controller c smi))) = cli_runs c
   \<and> (cli_runs c \<longrightarrow> cli_integer smi = Some n \<longrightarrow>
        snd (gpu_controller c smi) =
          Returns ((library_info c)
            \<lparr> temperatureGpu := Some (Fin (of_int n)), source := ''nvidia-smi'' \<rparr>))
   \<and> (cli_runs c \<longrightarrow> cli_integer smi = None \<longrightarrow>
        snd (gpu_controller c smi) = Returns (library_info c)
        \<and> temperatureGpu (library_info c) = None
        \<and> source (library_info c) = ''systeminformation'')
   \<and> getGpuTemperatures (Returns cs) =
       (concat (map (\<lambda>(c, smi). fst (gpu_controller c smi)) cs),
        Returns (map (\<lambda>(c, smi). resolved_info c smi) cs))
   \<and> length (filter (\<lambda>e. e = Exec NvidiaSmiQuery) (fst (getGpuTemperatures (Returns cs))))
       = length (filter (\<lambda>(c, smi). cli_runs c) cs)
   \<and> getGpuTemperatures
        (Returns [(\<lparr> c_vendor = ''NVIDIA'', c_model = ''RTX X'', c_temperatureGpu = None,
                     c_temperatureMemory = None \<rparr>, Returns ''67\<newline>'')]) =
       ([Exec NvidiaSmiQuery],
        Returns [\<lparr> model = ''RTX X'', temperatureGpu = Some (Fin 67),
                   temperatureMemory = None, source = ''nvidia-smi'' \<rparr>])"
proof -
  have a: "(Exec NvidiaSmiQuery \<in> set (fst (gpu_controller c smi))) = cli_runs c"
    unfolding gpu_controller_eq by (auto split: outcome.splits option.splits)
  have b: "snd (gpu_controller c smi) =
          Returns ((library_info c)
            \<lparr> temperatureGpu := Some (Fin (of_int n)), source := ''nvidia-smi'' \<rparr>)"
    if "cli_runs c" "cli_integer smi = Some n"
    using that by (simp add: gpu_controller_resolved resolved_info_def)
  have c: "snd (gpu_controller c smi) = Returns (library_info c)
        \<and> temperatureGpu (library_info c) = None
        \<and> source (library_info c) = ''systeminformation''"
    if "cli_runs c" "cli_integer smi = None"
    using that by (simp add: gpu_controller_resolved resolved_info_def cli_runs_def library_info_def)
  have d: "getGpuTemperatures (Returns cs) =
       (concat (map (\<lambda>(c, smi). fst (gpu_controller c smi)) cs),
        Returns (map (\<lambda>(c, smi). resolved_info c smi) cs))"
    by (simp add: getGpuTemperatures_resolved gpu_controller_resolved)
  have e: "length (filter (\<lambda>e. e = Exec NvidiaSmiQuery) (fst (getGpuTemperatures (Returns cs))))
       = length (filter (\<lambda>(c, smi). cli_runs c) cs)"
    by (simp add: getGpuTemperatures_resolved cli_events_count)
  let ?c = "\<lparr> c_vendor = ''NVIDIA'', c_model = ''RTX X'', c_temperatureGpu = None,
                     c_temperatureMemory = None \<rparr>"
  have runs: "cli_runs ?c"
    by (simp add: cli_runs_def library_info_def toLower_def toLowerChar_def)
  have p: "parseInt (firstLine (trim ''67\<newline>'')) = Some 67"
    by (simp add: parseInt_def firstLine_def trim_def trimStart_def trimEnd_def is_space_def
        is_digit_def digit_of_def)
  have f: "getGpuTemperatures (Returns [(?c, Returns ''67\<newline>'')]) =
       ([Exec NvidiaSmiQuery],
        Returns [\<lparr> model = ''RTX X'', temperatureGpu = Some (Fin 67),
                   temperatureMemory = None, source = ''nvidia-smi'' \<rparr>])"
    using runs p
    by (simp add: getGpuTemperatures_def call_def gpu_controller_eq ret_def library_info_def)
  show ?thesis using a b c d e f by blast
qed

theorem vendor_cli_fallback_witness:
  "cli_runs \<lparr> c_vendor = ''Nvidia Corp'', c_model = ''GeForce'', c_temperatureGpu = Some NaN,
               c_temperatureMemory = None \<rparr>
   \<and> cli_integer (Returns '' 71 \<newline>70\<newline>'') = Some 71
   \<and> cli_integer (Returns ''N/A'') = None
   \<and> snd (gpu_controller
        \<lparr> c_vendor = ''Nvidia Corp'', c_model = ''GeForce'', c_temperatureGpu = Some NaN,
          c_temperatureMemory = None \<rparr> (Returns '' 71 \<newline>70\<newline>'')) =
       Returns \<lparr> model = ''GeForce'', temperatureGpu = Some (Fin 71),
                 temperatureMemory = None, source = ''nvidia-smi'' \<rparr>
   \<and> snd (gpu_controller
        \<lparr> c_vendor = ''Nvidia Corp'', c_model = ''GeForce'', c_temperatureGpu = Some NaN,
          c_temperatureMemory = None \<rparr> (Returns ''N/A'')) =
       Returns \<lparr> model = ''GeForce'', temperatureGpu = None,
                 temperatureMemory = None, source = ''systeminformation'' \<rparr>
   \<and> getGpuTemperatures (Returns
        [(\<lparr> c_vendor = ''Nvidia Corp'', c_model = ''GeForce'', c_temperatureGpu = Some NaN,
            c_temperatureMemory = None \<rparr>, Returns '' 71 \<newline>70\<newline>''),
         (\<lparr> c_vendor = ''Intel'', c_model = ''UHD'', c_temperatureGpu = None,
            c_temperatureMemory = None \<rparr>, Throws (Exn ''ENOENT'')),
         (\<lparr> c_vendor = ''Nvidia Corp'', c_model = ''GeForce'', c_temperatureGpu = Some NaN,
            c_temperatureMemory = None \<rparr>, Returns ''N/A'')]) =
       ([Exec NvidiaSmiQuery, Exec NvidiaSmiQuery],
        Returns
          [\<lparr> model = ''GeForce'', temperatureGpu = Some (Fin 71),
             temperatureMemory = None, source = ''nvidia-smi'' \<rparr>,
           \<lparr> model = ''UHD'', temperatureGpu = None,
             temperatureMemory = None, source = ''systeminformation'' \<rparr>,
           \<lparr> model = ''GeForce'', temperatureGpu = None,
             temperatureMemory = None, source = ''systeminformation'' \<rparr>])"
proof -
  define nv where "nv =
     \<lparr> c_vendor = ''Nvidia Corp'', c_model = ''GeForce'', c_temperatureGpu = Some NaN,
       c_temperatureMemory = None \<rparr>"
  define uhd where "uhd =
     \<lparr> c_vendor = ''Intel'', c_model = ''UHD'', c_temperatureGpu = (None :: jsnum option),
       c_temperatureMemory = (None :: jsnum option) \<rparr>"
  define good where "good = (Returns '' 71 \<newline>70\<newline>'' :: string outcome)"
  define bad where "bad = (Returns ''N/A'' :: string outcome)"
  define gone where "gone = (Throws (Exn ''ENOENT'') :: string outcome)"
  have runs: "cli_runs nv"
    by (simp add: nv_def cli_runs_def library_info_def toLower_def toLowerChar_def)
  have noruns: "\<not> cli_runs uhd"
    by (simp add: uhd_def cli_runs_def library_info_def toLower_def toLowerChar_def)
  have p1: "cli_integer good = Some 71"
    by (simp add: good_def cli_integer_def parseInt_def firstLine_def trim_def trimStart_def
        trimEnd_def is_space_def is_digit_def digit_of_def)
  have p2: "cli_integer bad = None"
    by (simp add: bad_def cli_integer_def parseInt_def firstLine_def trim_def trimStart_def
        trimEnd_def is_space_def is_digit_def digit_of_def)
  have li: "library_info nv = \<lparr> model = ''GeForce'', temperatureGpu = None,
                 temperatureMemory = None, source = ''systeminformation'' \<rparr>"
    "library_info uhd = \<lparr> model = ''UHD'', temperatureGpu = None,
                 temperatureMemory = None, source = ''systeminformation'' \<rparr>"
    by (simp_all add: nv_def uhd_def library_info_def)
  note th1 = vendor_cli_fallback [of nv good 71 "[(nv, good), (uhd, gone), (nv, bad)]"]
  note th2 = vendor_cli_fallback [of nv bad 0 "[]"]
  note th3 = vendor_cli_fallback [of uhd gone 0 "[]"]
  have g1: "snd (gpu_controller nv good) =
       Returns \<lparr> model = ''GeForce'', temperatureGpu = Some (Fin 71),
                 temperatureMemory = None, source = ''nvidia-smi'' \<rparr>"
    using th1 [THEN conjunct2, THEN conjunct1] runs p1 by (simp add: li)
  have g2: "snd (gpu_controller nv bad) =
       Returns \<lparr> model = ''GeForce'', temperatureGpu = None,
                 temperatureMemory = None, source = ''systeminformation'' \<rparr>"
    using th2 [THEN conjunct2, THEN conjunct2, THEN conjunct1] runs p2 by (simp add: li)
  have t1: "fst (gpu_controller nv good) = [Exec NvidiaSmiQuery]"
    "fst (gpu_controller nv bad) = [Exec NvidiaSmiQuery]"
    "fst (gpu_controller uhd gone) = []"
    using runs noruns p1 p2
    by (simp_all add: gpu_controller_resolved cli_events_def good_def bad_def)
  have r: "resolved_info nv good = \<lparr> model = ''GeForce'', temperatureGpu = Some (Fin 71),
                 temperatureMemory = None, source = ''nvidia-smi'' \<rparr>"
    "resolved_info nv bad = \<lparr> model = ''GeForce'', temperatureGpu = None,
                 temperatureMemory = None, source = ''systeminformation'' \<rparr>"
    "resolved_info uhd gone = \<lparr> model = ''UHD'', temperatureGpu = None,
                 temperatureMemory = None, source = ''systeminformation'' \<rparr>"
    using runs noruns p1 p2 by (simp_all add: resolved_info_def li)
  have g3: "getGpuTemperatures (Returns [(nv, good), (uhd, gone), (nv, bad)]) =
       ([Exec NvidiaSmiQuery, Exec NvidiaSmiQuery],
        Returns
          [\<lparr> model = ''GeForce'', temperatureGpu = Some (Fin 71),
             temperatureMemory = None, source = ''nvidia-smi'' \<rparr>,
           \<lparr> model = ''UHD'', temperatureGpu = None,
             temperatureMemory = None, source = ''systeminformation'' \<rparr>,
           \<lparr> model = ''GeForce'', temperatureGpu = None,
             temperatureMemory = None, source = ''systeminformation'' \<rparr>])"
    using th1 [THEN conjunct2, THEN conjunct2, THEN conjunct2, THEN conjunct1]
    by (simp add: t1 r)
  show ?thesis
    using runs p1 p2 g1 g2 g3 unfolding nv_def uhd_def good_def bad_def gone_def
    by (intro conjI)
qed

section \<open>The GPU enumerator: what the fallback may change\<close>

lemma gpu_controller_snd:
  "snd (gpu_controller c smi) =
     Returns (if cli_runs c then
                (case cli_integer smi of
                   Some n \<Rightarrow> (library_info c)
                     \<lparr> temperatureGpu := Some (Fin (of_int n)), source := ''nvidia-smi'' \<rparr>
                 | None \<Rightarrow> library_info c)
              else library_info c)"
  unfolding gpu_controller_eq cli_integer_def
  by (simp split: outcome.splits option.splits)

lemma library_source: "source (library_info c) = ''systeminformation''"
  by (simp add: library_info_def)

lemma library_model:
  "model (library_info c) = (if c_model c \<noteq> [] then c_model c
                      else if c_vendor c \<noteq> [] then c_vendor c else ''Unknown GPU'')"
  by (simp add: library_info_def)

lemma library_memory:
  "temperatureMemory (library_info c) =
            (case c_temperatureMemory c of
               Some n \<Rightarrow> if n = NaN then None else Some n
             | None \<Rightarrow> None)"
  by (simp add: library_info_def)

lemma source_names_differ: "''systeminformation'' \<noteq> ''nvidia-smi''"
  by simp

text \<open>
  C10. The element pushed for a controller differs from what the library enumeration
  alone gives in \<open>temperatureGpu\<close> and \<open>source\<close> at most, and in both or in neither:
  \<open>model\<close> is the model, else the vendor, else the placeholder; \<open>temperatureMemory\<close>
  is the library's memory temperature, else absent; and the source is \<open>nvidia-smi\<close>
  only when the fallback ran and \<open>temperatureGpu\<close> is the integer parsed from the CLI.
\<close>

theorem vendor_cli_frame:
  "\<not> throws (gpu_controller c smi)
   \<and> (snd (gpu_controller c smi) = Returns info \<longrightarrow>
        model info = (if c_model c \<noteq> [] then c_model c
                      else if c_vendor c \<noteq> [] then c_vendor c else ''Unknown GPU'')
        \<and> temperatureMemory info =
            (case c_temperatureMemory c of
               Some n \<Rightarrow> if n = NaN then None else Some n
             | None \<Rightarrow> None)
        \<and> (info = library_info c
            \<or> (\<exists>n. cli_integer smi = Some n
                   \<and> info = (library_info c)
                       \<lparr> temperatureGpu := Some (Fin (of_int n)), source := ''nvidia-smi'' \<rparr>))
        \<and> (source info = ''nvidia-smi'' \<longrightarrow>
             cli_runs c
             \<and> (\<exists>n. cli_integer smi = Some n \<and> temperatureGpu info = Some (Fin (of_int n)))))"
proof -
  have a: "\<not> throws (gpu_controller c smi)"
    using gpu_controller_snd [of c smi] by (simp add: throws_def)
  have b: "model info = (if c_model c \<noteq> [] then c_model c
                      else if c_vendor c \<noteq> [] then c_vendor c else ''Unknown GPU'')
        \<and> temperatureMemory info =
            (case c_temperatureMemory c of
               Some n \<Rightarrow> if n = NaN then None else Some n
             | None \<Rightarrow> None)
        \<and> (info = library_info c
            \<or> (\<exists>n. cli_integer smi = Some n
                   \<and> info = (library_info c)
                       \<lparr> temperatureGpu := Some (Fin (of_int n)), source := ''nvidia-smi'' \<rparr>))
        \<and> (source info = ''nvidia-smi'' \<longrightarrow>
             cli_runs c
             \<and> (\<exists>n. cli_integer smi = Some n \<and> temperatureGpu info = Some (Fin (of_int n))))"
    if r: "snd (gpu_controller c smi) = Returns info"
  proof (cases "cli_runs c")
    case False
    then have "info = library_info c"
      using r gpu_controller_snd [of c smi] by simp
    then show ?thesis
      using library_source [of c] library_model [of c] library_memory [of c]
        source_names_differ by simp
  next
    case True
    show ?thesis
    proof (cases "cli_integer smi")
      case None
      then have "info = library_info c"
        using r True gpu_controller_snd [of c smi] by simp
      then show ?thesis
        using library_source [of c] library_model [of c] library_memory [of c]
          source_names_differ by simp
    next
      case (Some n)
      then have "info = (library_info c)
          \<lparr> temperatureGpu := Some (Fin (of_int n)), source := ''nvidia-smi'' \<rparr>"
        using r True gpu_controller_snd [of c smi] by simp
      then show ?thesis
        using True Some library_model [of c] library_memory [of c] by simp
    qed
  qed
  show ?thesis using a b by blast
qed

theorem vendor_cli_frame_witness:
  "snd (gpu_controller
          \<lparr> c_vendor = ''NVIDIA'', c_model = ''RTX X'', c_temperatureGpu = None,
            c_temperatureMemory = Some (Fin 40) \<rparr> (Returns ''67\<newline>'')) =
     Returns \<lparr> model = ''RTX X'', temperatureGpu = Some (Fin 67),
               temperatureMemory = Some (Fin 40), source = ''nvidia-smi'' \<rparr>
   \<and> cli_runs \<lparr> c_vendor = ''NVIDIA'', c_model = ''RTX X'', c_temperatureGpu = None,
                 c_temperatureMemory = Some (Fin 40) \<rparr>
   \<and> cli_integer (Returns ''67\<newline>'') = Some 67"
proof -
  let ?c = "\<lparr> c_vendor = ''NVIDIA'', c_model = ''RTX X'', c_temperatureGpu = None,
            c_temperatureMemory = Some (Fin 40) \<rparr>"
  let ?info = "\<lparr> model = ''RTX X'', temperatureGpu = Some (Fin 67),
               temperatureMemory = Some (Fin 40), source = ''nvidia-smi'' \<rparr>"
  have p: "cli_integer (Returns ''67\<newline>'') = Some 67"
    by (simp add: cli_integer_def parseInt_def firstLine_def trim_def trimStart_def
        trimEnd_def is_space_def is_digit_def digit_of_def)
  have runs: "cli_runs ?c"
    by (simp add: cli_runs_def library_info_def toLower_def toLowerChar_def)
  have r: "snd (gpu_controller ?c (Returns ''67\<newline>'')) = Returns ?info"
    using runs p by (simp add: gpu_controller_snd library_info_def)
  show ?thesis
    using vendor_cli_frame [of ?c "Returns ''67\<newline>''" ?info] r p by simp
qed

section \<open>The GPU enumerator: the source tag\<close>

lemma resolved_source:
  "source (resolved_info c smi) =
     (if cli_runs c \<and> cli_integer smi \<noteq> None then ''nvidia-smi'' else ''systeminformation'')"
  by (cases "cli_integer smi") (simp_all add: resolved_info_def library_source)

lemma resolved_temperature:
  "temperatureGpu (resolved_info c smi) =
     (if cli_runs c then
        (case cli_integer smi of
           Some n \<Rightarrow> Some (Fin (of_int n))
         | None \<Rightarrow> None)
      else temperatureGpu (library_info c))"
  by (cases "cli_integer smi") (auto simp: resolved_info_def cli_runs_def)

lemma source_not_unknown:
  "''systeminformation'' \<noteq> ''unknown''" "''nvidia-smi'' \<noteq> ''unknown''"
  by simp_all

text \<open>
  C6, as amended. Every element the enumerator emits carries the source
  \<open>systeminformation\<close> or \<open>nvidia-smi\<close>, never \<open>unknown\<close>. The source is
  \<open>nvidia-smi\<close> exactly when the fallback ran and the CLI supplied the temperature, and
  \<open>systeminformation\<close> in every other case: when the library supplied the temperature and
  also when no strategy did, so an element without temperature carries the source
  \<open>systeminformation\<close>.
\<close>

theorem gpu_source_tag:
  "snd (getGpuTemperatures (Returns cs)) = Returns (map (\<lambda>(c, smi). resolved_info c smi) cs)
   \<and> (snd (getGpuTemperatures g) = Returns rs \<and> info \<in> set rs \<longrightarrow>
        (source info = ''systeminformation'' \<or> source info = ''nvidia-smi'')
        \<and> source info \<noteq> ''unknown''
        \<and> (temperatureGpu info = None \<longrightarrow> source info = ''systeminformation''))
   \<and> (source (resolved_info c smi) = ''nvidia-smi'')
       = (cli_runs c \<and> cli_integer smi \<noteq> None)
   \<and> (source (resolved_info c smi) = ''systeminformation'')
       = (\<not> (cli_runs c \<and> cli_integer smi \<noteq> None))
   \<and> (cli_runs c \<and> cli_integer smi = Some n \<longrightarrow>
        temperatureGpu (resolved_info c smi) = Some (Fin (of_int n)))
   \<and> (\<not> (cli_runs c \<and> cli_integer smi \<noteq> None) \<longrightarrow>
        temperatureGpu (resolved_info c smi) = temperatureGpu (library_info c))"
proof -
  have a: "snd (getGpuTemperatures (Returns cs)) =
             Returns (map (\<lambda>(c, smi). resolved_info c smi) cs)"
    by (simp add: getGpuTemperatures_resolved)
  have elem: "(source (resolved_info c smi) = ''systeminformation''
               \<or> source (resolved_info c smi) = ''nvidia-smi'')
        \<and> source (resolved_info c smi) \<noteq> ''unknown''
        \<and> (temperatureGpu (resolved_info c smi) = None \<longrightarrow>
             source (resolved_info c smi) = ''systeminformation'')" for c smi
    using source_not_unknown
    by (cases "cli_integer smi") (simp_all add: resolved_source resolved_temperature)
  have b: "(source info = ''systeminformation'' \<or> source info = ''nvidia-smi'')
        \<and> source info \<noteq> ''unknown''
        \<and> (temperatureGpu info = None \<longrightarrow> source info = ''systeminformation'')"
    if r: "snd (getGpuTemperatures g) = Returns rs" and i: "info \<in> set rs"
  proof (cases g)
    case (Throws e)
    then have "rs = []"
      using r by (simp add: getGpuTemperatures_def call_def logger_def ret_def)
    then show ?thesis using i by simp
  next
    case (Returns cs')
    then have "rs = map (\<lambda>(c, smi). resolved_info c smi) cs'"
      using r by (simp add: getGpuTemperatures_resolved)
    then obtain c' smi' where eq: "info = resolved_info c' smi'"
      using i by auto
    show ?thesis unfolding eq by (rule elem)
  qed
  have c: "(source (resolved_info c smi) = ''nvidia-smi'')
       = (cli_runs c \<and> cli_integer smi \<noteq> None)"
    using source_names_differ by (simp add: resolved_source)
  have d: "(source (resolved_info c smi) = ''systeminformation'')
       = (\<not> (cli_runs c \<and> cli_integer smi \<noteq> None))"
    using source_names_differ by (simp add: resolved_source)
  have e: "cli_runs c \<and> cli_integer smi = Some n \<longrightarrow>
        temperatureGpu (resolved_info c smi) = Some (Fin (of_int n))"
    by (simp add: resolved_temperature)
  have f: "\<not> (cli_runs c \<and> cli_integer smi \<noteq> None) \<longrightarrow>
        temperatureGpu (resolved_info c smi) = temperatureGpu (library_info c)"
    by (auto simp: resolved_temperature cli_runs_def)
  show ?thesis using a b c d e f by blast
qed

theorem gpu_source_tag_witness:
  "snd (getGpuTemperatures (Returns
        [(\<lparr> c_vendor = ''NVIDIA'', c_model = ''RTX X'', c_temperatureGpu = None,
            c_temperatureMemory = None \<rparr>, Returns ''67\<newline>''),
         (\<lparr> c_vendor = ''AMD'', c_model = ''Radeon RX'', c_temperatureGpu = None,
            c_temperatureMemory = None \<rparr>, Throws (Exn ''ENOENT''))])) =
     Returns
       [\<lparr> model = ''RTX X'', temperatureGpu = Some (Fin 67),
          temperatureMemory = None, source = ''nvidia-smi'' \<rparr>,
        \<lparr> model = ''Radeon RX'', temperatureGpu = None,
          temperatureMemory = None, source = ''systeminformation'' \<rparr>]
   \<and> \<lparr> model = ''Radeon RX'', temperatureGpu = None,
         temperatureMemory = None, source = ''systeminformation'' \<rparr>
       \<in> set [\<lparr> model = ''RTX X'', temperatureGpu = Some (Fin 67),
                 temperatureMemory = None, source = ''nvidia-smi'' \<rparr>,
               \<lparr> model = ''Radeon RX'', temperatureGpu = None,
                 temperatureMemory = None, source = ''systeminformation'' \<rparr>]
   \<and> cli_runs \<lparr> c_vendor = ''NVIDIA'', c_model = ''RTX X'', c_temperatureGpu = None,
                 c_temperatureMemory = None \<rparr>
   \<and> cli_integer (Returns ''67\<newline>'') = Some 67
   \<and> source (resolved_info \<lparr> c_vendor = ''NVIDIA'', c_model = ''RTX X'',
         c_temperatureGpu = None, c_temperatureMemory = None \<rparr> (Returns ''67\<newline>''))
       = ''nvidia-smi''
   \<and> temperatureGpu (resolved_info \<lparr> c_vendor = ''NVIDIA'', c_model = ''RTX X'',
         c_temperatureGpu = None, c_temperatureMemory = None \<rparr> (Returns ''67\<newline>''))
       = Some (Fin 67)
   \<and> \<not> cli_runs \<lparr> c_vendor = ''AMD'', c_model = ''Radeon RX'', c_temperatureGpu = None,
                 c_temperatureMemory = None \<rparr>
   \<and> source (resolved_info \<lparr> c_vendor = ''AMD'', c_model = ''Radeon RX'',
         c_temperatureGpu = None, c_temperatureMemory = None \<rparr> (Throws (Exn ''ENOENT'')))
       = ''systeminformation''"
proof -
  define nv where "nv =
     \<lparr> c_vendor = ''NVIDIA'', c_model = ''RTX X'', c_temperatureGpu = (None :: jsnum option),
       c_temperatureMemory = (None :: jsnum option) \<rparr>"
  define amd where "amd =
     \<lparr> c_vendor = ''AMD'', c_model = ''Radeon RX'', c_temperatureGpu = (None :: jsnum option),
       c_temperatureMemory = (None :: jsnum option) \<rparr>"
  define good where "good = (Returns ''67\<newline>'' :: string outcome)"
  define gone where "gone = (Throws (Exn ''ENOENT'') :: string outcome)"
  define i1 where "i1 = \<lparr> model = ''RTX X'', temperatureGpu = Some (Fin 67),
          temperatureMemory = None, source = ''nvidia-smi'' \<rparr>"
  define i2 where "i2 = \<lparr> model = ''Radeon RX'', temperatureGpu = (None :: jsnum option),
          temperatureMemory = (None :: jsnum option), source = ''systeminformation'' \<rparr>"
  have runs: "cli_runs nv"
    by (simp add: nv_def cli_runs_def library_info_def toLower_def toLowerChar_def)
  have noruns: "\<not> cli_runs amd"
    by (simp add: amd_def cli_runs_def library_info_def toLower_def toLowerChar_def)
  have p: "cli_integer good = Some 67"
    by (simp add: good_def cli_integer_def parseInt_def firstLine_def trim_def trimStart_def
        trimEnd_def is_space_def is_digit_def digit_of_def)
  have r1: "resolved_info nv good = i1"
    using runs p by (simp add: resolved_info_def) (simp add: nv_def i1_def library_info_def)
  have r2: "resolved_info amd gone = i2"
    using noruns by (simp add: resolved_info_def) (simp add: amd_def i2_def library_info_def)
  note th1 = gpu_source_tag [of "[(nv, good), (amd, gone)]"
                "Returns [(nv, good), (amd, gone)]" "[i1, i2]" i2 nv good 67]
  note th2 = gpu_source_tag [of "[]" "Returns []" "[]" i2 amd gone 0]
  have a: "snd (getGpuTemperatures (Returns [(nv, good), (amd, gone)])) = Returns [i1, i2]"
    using th1 [THEN conjunct1] by (simp add: r1 r2)
  have m: "i2 \<in> set [i1, i2]" by simp
  have b: "source i2 = ''systeminformation''"
    using th1 [THEN conjunct2, THEN conjunct1] a m by (simp add: i2_def)
  have c: "source (resolved_info nv good) = ''nvidia-smi''"
    using th1 [THEN conjunct2, THEN conjunct2, THEN conjunct1] runs p by simp
  have d: "temperatureGpu (resolved_info nv good) = Some (Fin 67)"
    using th1 [THEN conjunct2, THEN conjunct2, THEN conjunct2, THEN conjunct2, THEN conjunct1]
      runs p by simp
  have e: "source (resolved_info amd gone) = ''systeminformation''"
    using th2 [THEN conjunct2, THEN conjunct2, THEN conjunct2, THEN conjunct1] noruns by simp
  show ?thesis
    using a m runs p c d noruns e
    unfolding nv_def amd_def good_def gone_def i1_def i2_def
    by (intro conjI)
qed

text \<open>
  C6 as stated fails at a controller for which no strategy produces a temperature (not
  NVIDIA, no temperature from the library, so the CLI is not started): the element
  emitted has no temperature and the source \<open>systeminformation\<close>, not \<open>unknown\<close>, and
  the library did not supply its temperature.
\<close>

theorem absent_temperature_source_counterexample:
  "temperatureGpu (library_info \<lparr> c_vendor = ''AMD'', c_model = ''Radeon RX'',
       c_temperatureGpu = None, c_temperatureMemory = None \<rparr>) = None
   \<and> \<not> cli_runs \<lparr> c_vendor = ''AMD'', c_model = ''Radeon RX'', c_temperatureGpu = None,
                 c_temperatureMemory = None \<rparr>
   \<and> getGpuTemperatures
       (Returns [(\<lparr> c_vendor = ''AMD'', c_model = ''Radeon RX'', c_temperatureGpu = None,
                    c_temperatureMemory = None \<rparr>, Throws (Exn ''ENOENT''))]) =
       ([], Returns [\<lparr> model = ''Radeon RX'', temperatureGpu = None,
                        temperatureMemory = None, source = ''systeminformation'' \<rparr>])
   \<and> ''systeminformation'' \<noteq> ''unknown''"
proof -
  have n: "\<not> cli_runs \<lparr> c_vendor = ''AMD'', c_model = ''Radeon RX'', c_temperatureGpu = None,
                  c_temperatureMemory = None \<rparr>"
    by (simp add: cli_runs_def toLower_def toLowerChar_def)
  have g: "getGpuTemperatures
       (Returns [(\<lparr> c_vendor = ''AMD'', c_model = ''Radeon RX'', c_temperatureGpu = None,
                    c_temperatureMemory = None \<rparr>, Throws (Exn ''ENOENT''))]) =
       ([], Returns [\<lparr> model = ''Radeon RX'', temperatureGpu = None,
                        temperatureMemory = None, source = ''systeminformation'' \<rparr>])"
    using n
    by (simp add: getGpuTemperatures_def call_def gpu_controller_eq ret_def library_info_def)
  show ?thesis using n g by (simp add: library_info_def)
qed

lemma gpu_loop_returns:
  "\<exists>t rs. gpu_loop cs acc = (t, Returns (acc @ rs))
     \<and> map model rs = map (\<lambda>x. model (library_info (fst x))) cs"
proof (induction cs arbitrary: acc)
  case Nil
  show ?case by (simp add: ret_def)
next
  case (Cons x cs)
  obtain c smi where x: "x = (c, smi)" by (cases x)
  obtain t info where g: "gpu_controller c smi = (t, Returns info)"
    and m: "model info = model (library_info c)"
    using gpu_controller_returns by blast
  obtain t' rs where l: "gpu_loop cs (acc @ [info]) = (t', Returns ((acc @ [info]) @ rs))"
    and ms: "map model rs = map (\<lambda>x. model (library_info (fst x))) cs"
    using Cons.IH [of "acc @ [info]"] by blast
  have "gpu_loop (x # cs) acc = (t @ t', Returns (acc @ (info # rs)))"
    by (simp add: x g l)
  then show ?case using m ms x by force
qed


section \<open>The CPU resolver: each strategy in closed form\<close>

lemma si_strategy_eq:
  "si_strategy env =
     (case si_cpuTemperature env of
        Throws e \<Rightarrow>
          ([Log Warn ''systeminformation cpuTemperature() failed, attempting fallback'' (Some e)],
           Returns Next)
      | Returns main \<Rightarrow>
          ([], Returns (case main of
                          Some n \<Rightarrow> if n = NaN then Next else Return (Some n)
                        | None \<Rightarrow> Next)))"
  by (simp add: si_strategy_def call_def logger_def ret_def isNaN_def
      split: outcome.splits option.splits)

lemma lhm_strategy_eq:
  "lhm_strategy env =
     (case lhm_json env of
        None \<Rightarrow> ([], Returns Next)
      | Some (Throws e) \<Rightarrow>
          ([Log Debug ''Failed parsing LibreHardwareMonitor JSON'' (Some e)], Returns Next)
      | Some (Returns json) \<Rightarrow>
          ([], Returns (case walk json None of Some best \<Rightarrow> Return (Some best) | None \<Rightarrow> Next)))"
  by (simp add: lhm_strategy_def call_def logger_def ret_def
      split: outcome.splits option.splits)

lemma ohm_strategy_eq:
  "ohm_strategy env =
     (case ohm_query env of
        Throws e \<Rightarrow>
          ([Exec OhmSensorQuery,
            Log Debug ''OpenHardwareMonitor WMI query failed (likely not running)'' (Some e)],
           Returns Next)
      | Returns stdout \<Rightarrow>
          ([Exec OhmSensorQuery],
           Returns (if trim stdout \<noteq> [] \<and> parseFloat (trim stdout) \<noteq> NaN
                    then Return (Some (parseFloat (trim stdout))) else Next)))"
  by (simp add: ohm_strategy_def execSync_def logger_def ret_def isNaN_def Let_def
      split: outcome.splits)

lemma acpi_strategy_eq:
  "acpi_strategy env =
     (case acpi_query env of
        Throws e \<Rightarrow>
          ([Exec AcpiThermalZoneQuery,
            Log Debug ''MSAcpi_ThermalZoneTemperature WMI fallback failed'' (Some e)],
           Returns Next)
      | Returns stdout \<Rightarrow>
          ([Exec AcpiThermalZoneQuery],
           Returns (case acpi_convert (trim stdout) of
                      Some c \<Rightarrow> Return (Some c)
                    | None \<Rightarrow> Next)))"
  by (simp add: acpi_strategy_def execSync_def logger_def ret_def
      split: outcome.splits option.splits)



section \<open>The CPU resolver: the scan of the thermal zones\<close>

lemma zone_type_regex: "regex_alt_i zone_type_alts ty = zone_kept ty"
  by (simp add: regex_alt_i_def zone_type_alts_def zone_kept_def toLower_def toLowerChar_def)

lemma zone_step_eq:
  "zone_step z best =
     ([], Returns (fold (\<lambda>r. keep_max (Fin r)) (kept_readings [z]) best))"
proof (cases "type_file z")
  case None
  then show ?thesis
    by (simp add: zone_step_def kept_readings_def zone_sample_def ret_def)
next
  case tf: (Some typeRead)
  show ?thesis
  proof (cases "temp_file z")
    case None
    then show ?thesis
      using tf by (simp add: zone_step_def kept_readings_def zone_sample_def ret_def
          split: outcome.splits)
  next
    case (Some tempRead)
    show ?thesis
    proof (cases typeRead)
      case (Throws e)
      then show ?thesis
        using tf Some
        by (simp add: zone_step_def kept_readings_def zone_sample_def ret_def call_def)
    next
      case (Returns ty)
      show ?thesis
      proof (cases "zone_kept (trim ty)")
        case False
        then show ?thesis
          using tf Some Returns
          by (cases tempRead)
             (simp_all add: zone_step_def kept_readings_def zone_sample_def ret_def call_def
                zone_type_regex split: option.splits)
      next
        case True
        then show ?thesis
          using tf Some Returns
          by (cases tempRead)
             (simp_all add: zone_step_def kept_readings_def zone_sample_def ret_def call_def
                zone_type_regex read_zone_temp_def milliCelsiusToCelsius_def
                split: option.splits)
      qed
    qed
  qed
qed

lemma kept_readings_Cons:
  "kept_readings (z # zs) = kept_readings [z] @ kept_readings zs"
  by (simp add: kept_readings_def)

lemma zone_loop_eq:
  "zone_loop zs best = ([], Returns (fold (\<lambda>r. keep_max (Fin r)) (kept_readings zs) best))"
proof (induction zs arbitrary: best)
  case Nil
  show ?case by (simp add: ret_def kept_readings_def)
next
  case (Cons z zs)
  show ?case
    by (simp add: zone_step_eq Cons.IH kept_readings_Cons [of z zs])
qed

lemma fold_keep_max_Fin:
  "fold (\<lambda>r. keep_max (Fin r)) rs (Some (Fin b)) = Some (Fin (Max (insert b (set rs))))"
proof (induction rs arbitrary: b)
  case Nil
  show ?case by simp
next
  case (Cons r rs)
  have "keep_max (Fin r) (Some (Fin b)) = Some (Fin (max r b))"
    by (auto simp: keep_max_def max_def)
  moreover have "Max (insert (max r b) (set rs)) = Max (insert b (set (r # rs)))"
    by (cases "set rs = {}") (auto simp: max.commute max.left_commute insert_commute)
  ultimately show ?case using Cons.IH [of "max r b"] by simp
qed

lemma fold_keep_max_maximum:
  "fold (\<lambda>r. keep_max (Fin r)) rs None = maximum rs"
proof (cases rs)
  case Nil
  then show ?thesis by (simp add: maximum_def)
next
  case (Cons r rs')
  have "keep_max (Fin r) None = Some (Fin r)" by (simp add: keep_max_def)
  then show ?thesis
    using fold_keep_max_Fin [of rs' r] by (simp add: Cons maximum_def)
qed

lemma thermal_zone_fallback_eq:
  "thermal_zone_fallback env =
     (case thermal_dir env of
        None \<Rightarrow> ([], Returns (Return None))
      | Some (Throws e) \<Rightarrow>
          ([Log Warn ''CPU thermal zone fallback failed'' (Some e)], Returns Next)
      | Some (Returns entries) \<Rightarrow>
          ([], Returns (Return (maximum (kept_readings
                  (filter (\<lambda>d. startsWith (zone_name d) ''thermal_zone'') entries))))))"
  by (simp add: thermal_zone_fallback_def call_def logger_def ret_def zone_loop_eq
      fold_keep_max_maximum split: outcome.splits option.splits)

lemma getCpuTemperature_after_Next:
  assumes "snd (si_strategy env) = Returns Next"
    and "win32 env \<longrightarrow> snd (windows_strategies env) = Returns Next"
  shows "snd (getCpuTemperature env) = snd (finish None (thermal_zone_fallback env))"
proof -
  obtain t where si: "si_strategy env = (t, Returns Next)"
    using assms(1) by (cases "si_strategy env") simp
  show ?thesis
  proof (cases "win32 env")
    case False
    then show ?thesis
      by (simp add: getCpuTemperature_def si ret_def)
         (simp add: finish_def snd_bind_prefix)
  next
    case True
    then obtain t' where w: "windows_strategies env = (t', Returns Next)"
      using assms(2) by (cases "windows_strategies env") simp
    have "snd (getCpuTemperature env) =
            snd (finish None (t @ fst (t' @ fst (thermal_zone_fallback env),
                                       snd (thermal_zone_fallback env)),
                              snd (thermal_zone_fallback env)))"
      using True by (simp add: getCpuTemperature_def si w)
    also have "\<dots> = snd (finish None (thermal_zone_fallback env))"
      unfolding finish_def
      using snd_bind_prefix [of "t @ t'" "thermal_zone_fallback env"] by simp
    finally show ?thesis .
  qed
qed

text \<open>
  C4. In the scan of the kernel thermal zones a zone contributes exactly when its type
  label contains cpu, x86_pkg or soc in any case (and its two files are readable, the
  temperature an integer); its reading is the milli-Celsius value divided by 1000, and
  the scan returns the maximum of these readings, absent when there is none or when the
  zone tree does not exist. That is what the resolver returns when the strategies before
  yield nothing. 45000 on a zone typed x86_pkg_temp reads 45, on a zone typed
  random-sensor nothing; the zones iwlwifi 30000, x86_pkg_temp 52000, soc-thermal 48000
  give 52.
\<close>

theorem thermal_zone_scan_maximum:
  "(thermal_dir env = Some (Returns entries) \<longrightarrow>
      thermal_zone_fallback env =
        ([], Returns (Return (maximum (kept_readings
                (filter (\<lambda>d. startsWith (zone_name d) ''thermal_zone'') entries))))))
   \<and> (thermal_dir env = None \<longrightarrow> thermal_zone_fallback env = ([], Returns (Return None)))
   \<and> (snd (si_strategy env) = Returns Next
        \<and> (win32 env \<longrightarrow> snd (windows_strategies env) = Returns Next)
        \<and> thermal_dir env = Some (Returns entries) \<longrightarrow>
        snd (getCpuTemperature env) =
          Returns (maximum (kept_readings
                (filter (\<lambda>d. startsWith (zone_name d) ''thermal_zone'') entries))))
   \<and> (kept_readings zones = [] \<longrightarrow> maximum (kept_readings zones) = None)
   \<and> kept_readings
        [\<lparr> zone_name = ''thermal_zone0'', type_file = Some (Returns ''x86_pkg_temp''),
           temp_file = Some (Returns ''45000'') \<rparr>] = [45]
   \<and> kept_readings
        [\<lparr> zone_name = ''thermal_zone0'', type_file = Some (Returns ''random-sensor''),
           temp_file = Some (Returns ''45000'') \<rparr>] = []
   \<and> getCpuTemperature
        \<lparr> si_cpuTemperature = Returns None, win32 = False, lhm_json = None,
          ohm_query = Throws (Exn ''ENOENT''), acpi_query = Throws (Exn ''ENOENT''),
          thermal_dir = Some (Returns
            [\<lparr> zone_name = ''thermal_zone0'', type_file = Some (Returns ''iwlwifi''),
               temp_file = Some (Returns ''30000'') \<rparr>,
             \<lparr> zone_name = ''thermal_zone1'', type_file = Some (Returns ''x86_pkg_temp''),
               temp_file = Some (Returns ''52000'') \<rparr>,
             \<lparr> zone_name = ''thermal_zone2'', type_file = Some (Returns ''soc-thermal''),
               temp_file = Some (Returns ''48000'') \<rparr>]) \<rparr> =
       ([], Returns (Some (Fin 52)))"
proof -
  have a: "thermal_dir env = Some (Returns entries) \<longrightarrow>
      thermal_zone_fallback env =
        ([], Returns (Return (maximum (kept_readings
                (filter (\<lambda>d. startsWith (zone_name d) ''thermal_zone'') entries)))))"
    by (simp add: thermal_zone_fallback_eq)
  have b: "thermal_dir env = None \<longrightarrow> thermal_zone_fallback env = ([], Returns (Return None))"
    by (simp add: thermal_zone_fallback_eq)
  have c: "snd (getCpuTemperature env) =
          Returns (maximum (kept_readings
                (filter (\<lambda>d. startsWith (zone_name d) ''thermal_zone'') entries)))"
    if "snd (si_strategy env) = Returns Next"
      "win32 env \<longrightarrow> snd (windows_strategies env) = Returns Next"
      "thermal_dir env = Some (Returns entries)"
    using getCpuTemperature_after_Next [OF that(1) that(2)] that(3)
    by (simp add: thermal_zone_fallback_eq)
  have d: "kept_readings zones = [] \<longrightarrow> maximum (kept_readings zones) = None"
    by (simp add: maximum_def)
  have pi: "parseInt ''45000'' = Some 45000" "parseInt ''30000'' = Some 30000"
    "parseInt ''52000'' = Some 52000" "parseInt ''48000'' = Some 48000"
    by (simp_all add: parseInt_def trimStart_def is_space_def is_digit_def digit_of_def)
  have tr: "trim ''45000'' = ''45000''" "trim ''30000'' = ''30000''"
    "trim ''52000'' = ''52000''" "trim ''48000'' = ''48000''"
    "trim ''x86_pkg_temp'' = ''x86_pkg_temp''" "trim ''random-sensor'' = ''random-sensor''"
    "trim ''iwlwifi'' = ''iwlwifi''" "trim ''soc-thermal'' = ''soc-thermal''"
    by (simp_all add: trim_def trimStart_def trimEnd_def is_space_def)
  have kp: "zone_kept ''x86_pkg_temp''" "\<not> zone_kept ''random-sensor''"
    "\<not> zone_kept ''iwlwifi''" "zone_kept ''soc-thermal''"
    by (simp_all add: zone_kept_def toLower_def toLowerChar_def)
  have e: "kept_readings
        [\<lparr> zone_name = ''thermal_zone0'', type_file = Some (Returns ''x86_pkg_temp''),
           temp_file = Some (Returns ''45000'') \<rparr>] = [45]"
    by (simp add: kept_readings_def zone_sample_def pi tr kp)
  have f: "kept_readings
        [\<lparr> zone_name = ''thermal_zone0'', type_file = Some (Returns ''random-sensor''),
           temp_file = Some (Returns ''45000'') \<rparr>] = []"
    by (simp add: kept_readings_def zone_sample_def pi tr kp)
  let ?zs = "[\<lparr> zone_name = ''thermal_zone0'', type_file = Some (Returns ''iwlwifi''),
               temp_file = Some (Returns ''30000'') \<rparr>,
             \<lparr> zone_name = ''thermal_zone1'', type_file = Some (Returns ''x86_pkg_temp''),
               temp_file = Some (Returns ''52000'') \<rparr>,
             \<lparr> zone_name = ''thermal_zone2'', type_file = Some (Returns ''soc-thermal''),
               temp_file = Some (Returns ''48000'') \<rparr>]"
  have k3: "kept_readings ?zs = [52, 48]"
    by (simp add: kept_readings_def zone_sample_def pi tr kp)
  have m3: "maximum [52, 48] = Some (Fin 52)"
    by (simp add: maximum_def)
  have g: "getCpuTemperature
        \<lparr> si_cpuTemperature = Returns None, win32 = False, lhm_json = None,
          ohm_query = Throws (Exn ''ENOENT''), acpi_query = Throws (Exn ''ENOENT''),
          thermal_dir = Some (Returns ?zs) \<rparr> = ([], Returns (Some (Fin 52)))"
    by (simp add: getCpuTemperature_def si_strategy_eq thermal_zone_fallback_eq k3 m3 ret_def)
  show ?thesis using a b c d e f g by blast
qed

theorem thermal_zone_scan_maximum_witness:
  "thermal_zone_fallback
     \<lparr> si_cpuTemperature = Throws (Exn ''unsupported''), win32 = False, lhm_json = None,
       ohm_query = Throws (Exn ''ENOENT''), acpi_query = Throws (Exn ''ENOENT''),
       thermal_dir = Some (Returns
         [\<lparr> zone_name = ''cooling_device0'', type_file = Some (Returns ''cpu''),
            temp_file = Some (Returns ''99000'') \<rparr>,
          \<lparr> zone_name = ''thermal_zone0'', type_file = Some (Returns ''CPU-Thermal\<newline>''),
            temp_file = Some (Returns ''61000\<newline>'') \<rparr>,
          \<lparr> zone_name = ''thermal_zone1'', type_file = Some (Returns ''x86_pkg_temp''),
            temp_file = Some (Throws (Exn ''EIO'')) \<rparr>,
          \<lparr> zone_name = ''thermal_zone2'', type_file = Some (Returns ''soc''),
            temp_file = Some (Returns ''n/a'') \<rparr>,
          \<lparr> zone_name = ''thermal_zone3'', type_file = Some (Returns ''acpitz''),
            temp_file = Some (Returns ''70000'') \<rparr>]) \<rparr> =
     ([], Returns (Return (Some (Fin 61))))
   \<and> snd (getCpuTemperature
     \<lparr> si_cpuTemperature = Throws (Exn ''unsupported''), win32 = False, lhm_json = None,
       ohm_query = Throws (Exn ''ENOENT''), acpi_query = Throws (Exn ''ENOENT''),
       thermal_dir = Some (Returns
         [\<lparr> zone_name = ''cooling_device0'', type_file = Some (Returns ''cpu''),
            temp_file = Some (Returns ''99000'') \<rparr>,
          \<lparr> zone_name = ''thermal_zone0'', type_file = Some (Returns ''CPU-Thermal\<newline>''),
            temp_file = Some (Returns ''61000\<newline>'') \<rparr>,
          \<lparr> zone_name = ''thermal_zone1'', type_file = Some (Returns ''x86_pkg_temp''),
            temp_file = Some (Throws (Exn ''EIO'')) \<rparr>,
          \<lparr> zone_name = ''thermal_zone2'', type_file = Some (Returns ''soc''),
            temp_file = Some (Returns ''n/a'') \<rparr>,
          \<lparr> zone_name = ''thermal_zone3'', type_file = Some (Returns ''acpitz''),
            temp_file = Some (Returns ''70000'') \<rparr>]) \<rparr>) = Returns (Some (Fin 61))
   \<and> thermal_zone_fallback
     \<lparr> si_cpuTemperature = Throws (Exn ''unsupported''), win32 = False, lhm_json = None,
       ohm_query = Throws (Exn ''ENOENT''), acpi_query = Throws (Exn ''ENOENT''),
       thermal_dir = None \<rparr> = ([], Returns (Return None))
   \<and> maximum (kept_readings []) = None"
proof -
  define zs where "zs =
         [\<lparr> zone_name = ''cooling_device0'', type_file = Some (Returns ''cpu''),
            temp_file = Some (Returns ''99000'') \<rparr>,
          \<lparr> zone_name = ''thermal_zone0'', type_file = Some (Returns ''CPU-Thermal\<newline>''),
            temp_file = Some (Returns ''61000\<newline>'') \<rparr>,
          \<lparr> zone_name = ''thermal_zone1'', type_file = Some (Returns ''x86_pkg_temp''),
            temp_file = Some (Throws (Exn ''EIO'')) \<rparr>,
          \<lparr> zone_name = ''thermal_zone2'', type_file = Some (Returns ''soc''),
            temp_file = Some (Returns ''n/a'') \<rparr>,
          \<lparr> zone_name = ''thermal_zone3'', type_file = Some (Returns ''acpitz''),
            temp_file = Some (Returns ''70000'') \<rparr>]"
  define env where "env =
     \<lparr> si_cpuTemperature = Throws (Exn ''unsupported''), win32 = False, lhm_json = None,
       ohm_query = Throws (Exn ''ENOENT''), acpi_query = Throws (Exn ''ENOENT''),
       thermal_dir = Some (Returns zs) \<rparr>"
  define bare where "bare =
     \<lparr> si_cpuTemperature = Throws (Exn ''unsupported''), win32 = False, lhm_json = None,
       ohm_query = Throws (Exn ''ENOENT''), acpi_query = Throws (Exn ''ENOENT''),
       thermal_dir = (None :: zone_entry list outcome option) \<rparr>"
  have k: "kept_readings (filter (\<lambda>d. startsWith (zone_name d) ''thermal_zone'') zs) = [61]"
  proof -
    have f: "filter (\<lambda>d. startsWith (zone_name d) ''thermal_zone'') zs = tl zs"
      by (simp add: zs_def)
    have sm: "map zone_sample (tl zs) =
        [Some (''CPU-Thermal'', 61000), None, None, Some (''acpitz'', 70000)]"
      by (simp add: zs_def zone_sample_def parseInt_def trim_def trimStart_def trimEnd_def
          is_space_def is_digit_def digit_of_def)
    have kp: "zone_kept ''CPU-Thermal''" "\<not> zone_kept ''acpitz''"
      by (simp_all add: zone_kept_def toLower_def toLowerChar_def)
    have "kept_readings (tl zs) =
        concat (map (\<lambda>s. case s of
                           Some (ty, milli) \<Rightarrow>
                             if zone_kept ty then [of_int milli / 1000] else []
                         | None \<Rightarrow> []) (map zone_sample (tl zs)))"
      by (simp add: kept_readings_def comp_def)
    then show ?thesis by (simp add: f sm kp)
  qed
  have m: "maximum [61] = Some (Fin 61)"
    by (simp add: maximum_def)
  have d: "thermal_dir env = Some (Returns zs)" "thermal_dir bare = None" "\<not> win32 env"
    by (simp_all add: env_def bare_def)
  have s: "snd (si_strategy env) = Returns Next"
    by (simp add: si_strategy_eq env_def)
  have e: "kept_readings [] = []"
    by (simp add: kept_readings_def)
  note th = thermal_zone_scan_maximum [of env zs "[]"]
  note th' = thermal_zone_scan_maximum [of bare zs "[]"]
  have r1: "thermal_zone_fallback env = ([], Returns (Return (Some (Fin 61))))"
    using th [THEN conjunct1] d(1) k m by simp
  have r2: "snd (getCpuTemperature env) = Returns (Some (Fin 61))"
    using th [THEN conjunct2, THEN conjunct2, THEN conjunct1] d(1) d(3) s k m by simp
  have r3: "thermal_zone_fallback bare = ([], Returns (Return None))"
    using th' [THEN conjunct2, THEN conjunct1] d(2) by simp
  have r4: "maximum (kept_readings []) = None"
    using th [THEN conjunct2, THEN conjunct2, THEN conjunct2, THEN conjunct1] e by simp
  show ?thesis
    using r1 r2 r3 r4 unfolding env_def bare_def zs_def by (intro conjI)
qed

section \<open>The CPU resolver: the walk of the exported JSON\<close>

lemma walk_fold:
  "walk node best = fold keep_max (matching_values node) best"
  "walk_children cs best = fold keep_max (matching_values_list cs) best"
proof (induction node best and cs best rule: walk_walk_children.induct)
  case (1 node best)
  show ?case
  proof (cases node)
    case (JObj fs)
    define best1 where "best1 =
      (if label_matches (map_of fs ''Text'') then
         (case map_of fs ''Value'' of Some (JNum v) \<Rightarrow> keep_max v best | _ \<Rightarrow> best)
       else best)"
    define own where "own =
      (if label_matches (map_of fs ''Text'') then
         (case map_of fs ''Value'' of Some (JNum v) \<Rightarrow> [v] | _ \<Rightarrow> [])
       else [])"
    have own: "fold keep_max own best = best1"
      by (simp add: own_def best1_def split: option.splits json.splits)
    have w: "walk node best =
        (case map_of fs ''Children'' of
           Some (JArr cs) \<Rightarrow> walk_children cs best1
         | _ \<Rightarrow> best1)"
      unfolding best1_def by (simp add: JObj walk.simps [of "JObj fs"] Let_def)
    have m: "matching_values node = own @
        (case map_of fs ''Children'' of
           Some (JArr cs) \<Rightarrow> matching_values_list cs
         | _ \<Rightarrow> [])"
      unfolding own_def by (simp add: JObj matching_values.simps [of "JObj fs"])
    show ?thesis
    proof (cases "map_of fs ''Children''")
      case None
      then show ?thesis by (simp add: w m own)
    next
      case (Some ch)
      show ?thesis
      proof (cases ch)
        case (JArr cs)
        have "walk_children cs best1 = fold keep_max (matching_values_list cs) best1"
          using "1.IH" JObj Some JArr unfolding best1_def by blast
        then show ?thesis by (simp add: w m own Some JArr)
      qed (simp_all add: w m own Some)
    qed
  qed (simp_all add: walk.simps matching_values.simps)
next
  case (2 best)
  show ?case by simp
next
  case (3 c cs best)
  then show ?case by simp
qed


lemma js_gt_irrefl [simp]: "\<not> js_gt a a"
  by (cases a) simp_all

lemma js_gt_trans: "js_gt a b \<Longrightarrow> js_gt b c \<Longrightarrow> js_gt a c"
  by (cases a; cases b; cases c) simp_all

lemma js_gt_asym: "js_gt a b \<Longrightarrow> \<not> js_gt b a"
  by (cases a; cases b) simp_all

lemma js_gt_total: "a \<noteq> NaN \<Longrightarrow> b \<noteq> NaN \<Longrightarrow> js_gt a b \<or> a = b \<or> js_gt b a"
  by (cases a; cases b) auto

lemma is_max_of_unique:
  assumes "is_max_of m vs" "is_max_of m' vs" "NaN \<notin> set vs"
  shows "m = m'"
proof -
  have "m \<in> set vs" "m' \<in> set vs" "\<not> js_gt m' m" "\<not> js_gt m m'"
    using assms by (auto simp: is_max_of_def)
  moreover have "m \<noteq> NaN" "m' \<noteq> NaN"
    using calculation assms(3) by auto
  ultimately show ?thesis using js_gt_total [of m m'] by blast
qed

lemma keep_max_None: "keep_max v None = Some v"
  by (simp add: keep_max_def)

lemma fold_keep_max_Some:
  assumes "NaN \<notin> set vs" "b \<noteq> NaN"
  shows "\<exists>m. fold keep_max vs (Some b) = Some m \<and> is_max_of m (b # vs)"
  using assms
proof (induction vs arbitrary: b)
  case Nil
  show ?case by (simp add: is_max_of_def)
next
  case (Cons v vs)
  show ?case
  proof (cases "js_gt v b")
    case True
    obtain m where m: "fold keep_max vs (Some v) = Some m" "is_max_of m (v # vs)"
      using Cons.IH [of v] Cons.prems by auto
    have "\<not> js_gt v m" using m(2) by (simp add: is_max_of_def)
    then have "\<not> js_gt b m"
      using True js_gt_trans [of v b m] by blast
    then have "is_max_of m (b # v # vs)"
      using m(2) by (auto simp: is_max_of_def)
    moreover have "keep_max v (Some b) = Some v"
      using True by (simp add: keep_max_def)
    ultimately show ?thesis using m(1) by auto
  next
    case False
    obtain m where m: "fold keep_max vs (Some b) = Some m" "is_max_of m (b # vs)"
      using Cons.IH [of b] Cons.prems by auto
    have vb: "v = b \<or> js_gt b v"
      using False js_gt_total [of v b] Cons.prems by auto
    have "\<not> js_gt b m" using m(2) by (simp add: is_max_of_def)
    then have "\<not> js_gt v m"
      using vb js_gt_trans [of v m b] js_gt_asym [of b v] js_gt_trans [of b v m] by blast
    then have "is_max_of m (b # v # vs)"
      using m(2) by (auto simp: is_max_of_def)
    moreover have "keep_max v (Some b) = Some b"
      using False by (simp add: keep_max_def)
    ultimately show ?thesis using m(1) by auto
  qed
qed

lemma fold_keep_max_None:
  assumes "NaN \<notin> set vs"
  shows "(fold keep_max vs None = None) = (vs = [])"
    and "(fold keep_max vs None = Some m) = is_max_of m vs"
proof -
  show "(fold keep_max vs None = None) = (vs = [])"
  proof (cases vs)
    case Nil
    then show ?thesis by simp
  next
    case (Cons v vs')
    then show ?thesis
      using fold_keep_max_Some [of vs' v] assms keep_max_None [of v] by auto
  qed
  show "(fold keep_max vs None = Some m) = is_max_of m vs"
  proof (cases vs)
    case Nil
    then show ?thesis by (simp add: is_max_of_def)
  next
    case (Cons v vs')
    obtain m' where m': "fold keep_max vs' (Some v) = Some m'" "is_max_of m' (v # vs')"
      using fold_keep_max_Some [of vs' v] assms Cons by auto
    have f: "fold keep_max vs None = Some m'"
      using m'(1) by (simp add: Cons keep_max_None)
    show ?thesis
      using f m'(2) is_max_of_unique [of m vs m'] assms by (auto simp: Cons)
  qed
qed

lemma nan_free_map_of:
  "list_all (\<lambda>kv. nan_free (snd kv)) fs \<Longrightarrow> map_of fs k = Some v \<Longrightarrow> nan_free v"
  by (induction fs) (auto split: if_splits)

lemma nan_free_matching_values:
  "nan_free node \<Longrightarrow> NaN \<notin> set (matching_values node)"
  "list_all nan_free cs \<Longrightarrow> NaN \<notin> set (matching_values_list cs)"
proof (induction node and cs rule: matching_values_matching_values_list.induct)
  case (1 node)
  show ?case
  proof (cases node)
    case (JObj fs)
    have all: "list_all (\<lambda>kv. nan_free (snd kv)) fs"
      using "1.prems" JObj by simp
    define own where "own =
      (if label_matches (map_of fs ''Text'') then
         (case map_of fs ''Value'' of Some (JNum v) \<Rightarrow> [v] | _ \<Rightarrow> [])
       else [])"
    define kids where "kids =
      (case map_of fs ''Children'' of
         Some (JArr cs) \<Rightarrow> matching_values_list cs
       | _ \<Rightarrow> [])"
    have m: "matching_values node = own @ kids"
      unfolding own_def kids_def by (simp add: JObj matching_values.simps [of "JObj fs"])
    have own: "NaN \<notin> set own"
    proof (cases "map_of fs ''Value''")
      case None
      show ?thesis
        unfolding own_def None by (cases "label_matches (map_of fs ''Text'')") simp_all
    next
      case (Some x)
      then have nf: "nan_free x" using nan_free_map_of [OF all] by blast
      show ?thesis
        unfolding own_def Some using nf
        by (cases "label_matches (map_of fs ''Text'')"; cases x) simp_all
    qed
    have ch: "NaN \<notin> set kids"
    proof (cases "map_of fs ''Children''")
      case None
      then show ?thesis by (simp add: kids_def)
    next
      case (Some c)
      show ?thesis
      proof (cases c)
        case (JArr cs)
        have "list_all nan_free cs"
          using nan_free_map_of [OF all Some] JArr by simp
        then show ?thesis
          using "1.IH" [OF JObj Some JArr] by (simp add: kids_def Some JArr)
      qed (simp_all add: kids_def Some)
    qed
    show ?thesis
      by (simp add: m own ch)
  qed (simp_all add: matching_values.simps)
next
  case 2
  show ?case by simp
next
  case (3 c cs)
  then show ?case by simp
qed

text \<open>
  C7. For a parsed JSON file (which holds no NaN) the walk returns nothing exactly when
  no node of the tree has a matching label and a numeric value, and otherwise the
  maximum of the values of those nodes. The strategy yields that maximum when the file
  parses; when reading or parsing throws, or no node matches, it yields nothing and the
  chain goes on with the next strategy.
\<close>

theorem lhm_walk_maximum:
  "(nan_free json \<longrightarrow>
      (walk json None = None) = (matching_values json = [])
      \<and> (walk json None = Some m) = is_max_of m (matching_values json))
   \<and> (lhm_json env = Some (Returns json) \<longrightarrow>
        snd (lhm_strategy env) =
          Returns (case walk json None of Some best \<Rightarrow> Return (Some best) | None \<Rightarrow> Next))
   \<and> (lhm_json env = Some (Throws e) \<longrightarrow> snd (lhm_strategy env) = Returns Next)
   \<and> (snd (lhm_strategy env) = Returns Next \<longrightarrow>
        snd (windows_strategies env) = snd (and_then (ohm_strategy env) (acpi_strategy env)))"
proof -
  have a: "(walk json None = None) = (matching_values json = [])
      \<and> (walk json None = Some m) = is_max_of m (matching_values json)"
    if "nan_free json"
    using fold_keep_max_None [OF nan_free_matching_values(1) [OF that]]
    by (simp add: walk_fold)
  have b: "lhm_json env = Some (Returns json) \<longrightarrow>
        snd (lhm_strategy env) =
          Returns (case walk json None of Some best \<Rightarrow> Return (Some best) | None \<Rightarrow> Next)"
    by (simp add: lhm_strategy_eq)
  have c: "lhm_json env = Some (Throws e) \<longrightarrow> snd (lhm_strategy env) = Returns Next"
    by (simp add: lhm_strategy_eq)
  have d: "snd (windows_strategies env) = snd (and_then (ohm_strategy env) (acpi_strategy env))"
    if nx: "snd (lhm_strategy env) = Returns Next"
  proof -
    obtain t where "lhm_strategy env = (t, Returns Next)"
      using nx by (cases "lhm_strategy env") auto
    then show ?thesis by (simp add: windows_strategies_def)
  qed
  show ?thesis using a b c d by blast
qed

theorem lhm_walk_maximum_witness:
  "nan_free (JObj [(''Children'', JArr
       [JObj [(''Text'', JStr ''Core (Tctl/Tdie)''), (''Value'', JNum (Fin 55.3))],
        JObj [(''Text'', JStr ''CCD1''), (''Value'', JNum (Fin 60)),
              (''Children'', JArr [JObj [(''Text'', JStr ''cpu package''), (''Value'', JNum (Fin 58))]])],
        JObj [(''Text'', JStr ''Fan''), (''Value'', JNum (Fin 1200))]])])
   \<and> matching_values (JObj [(''Children'', JArr
       [JObj [(''Text'', JStr ''Core (Tctl/Tdie)''), (''Value'', JNum (Fin 55.3))],
        JObj [(''Text'', JStr ''CCD1''), (''Value'', JNum (Fin 60)),
              (''Children'', JArr [JObj [(''Text'', JStr ''cpu package''), (''Value'', JNum (Fin 58))]])],
        JObj [(''Text'', JStr ''Fan''), (''Value'', JNum (Fin 1200))]])])
       = [Fin 55.3, Fin 60, Fin 58]
   \<and> walk (JObj [(''Children'', JArr
       [JObj [(''Text'', JStr ''Core (Tctl/Tdie)''), (''Value'', JNum (Fin 55.3))],
        JObj [(''Text'', JStr ''CCD1''), (''Value'', JNum (Fin 60)),
              (''Children'', JArr [JObj [(''Text'', JStr ''cpu package''), (''Value'', JNum (Fin 58))]])],
        JObj [(''Text'', JStr ''Fan''), (''Value'', JNum (Fin 1200))]])]) None = Some (Fin 60)"
proof -
  let ?j = "JObj [(''Children'', JArr
       [JObj [(''Text'', JStr ''Core (Tctl/Tdie)''), (''Value'', JNum (Fin 55.3))],
        JObj [(''Text'', JStr ''CCD1''), (''Value'', JNum (Fin 60)),
              (''Children'', JArr [JObj [(''Text'', JStr ''cpu package''), (''Value'', JNum (Fin 58))]])],
        JObj [(''Text'', JStr ''Fan''), (''Value'', JNum (Fin 1200))]])]"
  have nf: "nan_free ?j" by code_simp
  have mv: "matching_values ?j = [Fin 55.3, Fin 60, Fin 58]" by code_simp
  have mx: "is_max_of (Fin 60) [Fin 55.3, Fin 60, Fin 58]" by code_simp
  have "(walk ?j None = Some (Fin 60)) = is_max_of (Fin 60) (matching_values ?j)"
    using lhm_walk_maximum [of ?j "Fin 60"] nf by blast
  then have "walk ?j None = Some (Fin 60)"
    using mx by (simp only: mv)
  then show ?thesis using nf mv by blast
qed


section \<open>The CPU resolver: the first strategy that yields\<close>

lemma snd_and_then:
  "snd m = Returns f \<Longrightarrow>
   snd (and_then m k) = (case f of Return v \<Rightarrow> Returns (Return v) | Next \<Rightarrow> snd k)"
  by (cases m; cases f) simp_all

lemma snd_finish:
  "snd m = Returns f \<Longrightarrow> snd (finish d m) = Returns (case f of Return v \<Rightarrow> v | Next \<Rightarrow> d)"
  by (cases m; cases f) simp_all

lemma si_flow:
  "\<exists>f. snd (si_strategy env) = Returns f \<and> (f = Next \<or> (\<exists>v. f = Return (Some v) \<and> v \<noteq> NaN))"
  by (simp add: si_strategy_eq split: outcome.splits option.splits)

lemma ohm_flow:
  "\<exists>f. snd (ohm_strategy env) = Returns f \<and> (f = Next \<or> (\<exists>v. f = Return (Some v) \<and> v \<noteq> NaN))"
  by (simp add: ohm_strategy_eq split: outcome.splits option.splits)

lemma acpi_flow:
  "\<exists>f. snd (acpi_strategy env) = Returns f \<and> (f = Next \<or> (\<exists>v. f = Return (Some v) \<and> v \<noteq> NaN))"
proof (cases "acpi_query env")
  case (Throws e)
  then show ?thesis by (simp add: acpi_strategy_eq)
next
  case (Returns stdout)
  show ?thesis
  proof (cases "acpi_convert (trim stdout)")
    case None
    then show ?thesis using Returns by (simp add: acpi_strategy_eq)
  next
    case (Some v)
    then have "v \<noteq> NaN" using acpi_convert_range [OF Some] by auto
    then show ?thesis using Returns Some by (simp add: acpi_strategy_eq)
  qed
qed

lemma walk_not_NaN:
  assumes "nan_free json" "walk json None = Some v"
  shows "v \<noteq> NaN"
proof -
  have "is_max_of v (matching_values json)"
    using fold_keep_max_None(2) [OF nan_free_matching_values(1) [OF assms(1)], of v] assms(2)
    by (simp add: walk_fold)
  then show ?thesis
    using nan_free_matching_values(1) [OF assms(1)] by (auto simp: is_max_of_def)
qed

lemma lhm_flow:
  assumes "\<forall>j. lhm_json env = Some (Returns j) \<longrightarrow> nan_free j"
  shows "\<exists>f. snd (lhm_strategy env) = Returns f \<and> (f = Next \<or> (\<exists>v. f = Return (Some v) \<and> v \<noteq> NaN))"
proof (cases "lhm_json env")
  case None
  then show ?thesis by (simp add: lhm_strategy_eq)
next
  case (Some r)
  show ?thesis
  proof (cases r)
    case (Throws e)
    then show ?thesis using Some by (simp add: lhm_strategy_eq)
  next
    case (Returns j)
    then have nf: "nan_free j" using assms Some by simp
    show ?thesis
    proof (cases "walk j None")
      case None
      then show ?thesis using Some Returns by (simp add: lhm_strategy_eq)
    next
      case w: (Some v)
      then show ?thesis
        using Some Returns walk_not_NaN [OF nf w] by (simp add: lhm_strategy_eq)
    qed
  qed
qed

lemma thermal_flow:
  "\<exists>f. snd (thermal_zone_fallback env) = Returns f
       \<and> (f = Next \<or> f = Return None \<or> (\<exists>v. f = Return (Some v) \<and> v \<noteq> NaN))"
  by (auto simp: thermal_zone_fallback_eq maximum_def split: outcome.splits option.splits)


lemma lhm_shape:
  "\<exists>f. snd (lhm_strategy env) = Returns f \<and> (f = Next \<or> (\<exists>v. f = Return (Some v)))"
  by (simp add: lhm_strategy_eq split: outcome.splits option.splits)

lemma getCpuTemperature_chain:
  "snd (getCpuTemperature env) = Returns (first_yield env (probe_chain env))"
proof -
  obtain f1 where s1: "snd (si_strategy env) = Returns f1"
    and h1: "f1 = Next \<or> (\<exists>v. f1 = Return (Some v))"
    using si_flow [of env] by blast
  obtain f2 where s2: "snd (lhm_strategy env) = Returns f2"
    and h2: "f2 = Next \<or> (\<exists>v. f2 = Return (Some v))"
    using lhm_shape [of env] by blast
  obtain f3 where s3: "snd (ohm_strategy env) = Returns f3"
    and h3: "f3 = Next \<or> (\<exists>v. f3 = Return (Some v))"
    using ohm_flow [of env] by blast
  obtain f4 where s4: "snd (acpi_strategy env) = Returns f4"
    and h4: "f4 = Next \<or> (\<exists>v. f4 = Return (Some v))"
    using acpi_flow [of env] by blast
  obtain ft where st: "snd (thermal_zone_fallback env) = Returns ft"
    and ht: "ft = Next \<or> ft = Return None \<or> (\<exists>v. ft = Return (Some v))"
    using thermal_flow [of env] by blast
  define fw where "fw = (case f2 of Return v \<Rightarrow> Return v
                         | Next \<Rightarrow> (case f3 of Return v \<Rightarrow> Return v | Next \<Rightarrow> f4))"
  have w: "snd (windows_strategies env) = Returns fw"
    unfolding windows_strategies_def fw_def
    by (simp add: snd_and_then [OF s2] snd_and_then [OF s3] s4 split: flow.splits)
  define fr where "fr = (if win32 env then (case fw of Return v \<Rightarrow> Return v | Next \<Rightarrow> ft)
                         else ft)"
  have rest: "snd (and_then (if win32 env then windows_strategies env else ret Next)
                    (thermal_zone_fallback env)) = Returns fr"
    by (simp add: snd_and_then [OF w] st ret_def fr_def split: flow.splits)
  define fa where "fa = (case f1 of Return v \<Rightarrow> Return v | Next \<Rightarrow> fr)"
  let ?K = "and_then (if win32 env then windows_strategies env else ret Next)
                      (thermal_zone_fallback env)"
  have all: "snd (and_then (si_strategy env) ?K) = Returns fa"
  proof (cases f1)
    case (Return v)
    then show ?thesis
      using snd_and_then [OF s1, of ?K] by (simp only: fa_def flow.case)
  next
    case Next
    then show ?thesis
      using snd_and_then [OF s1, of ?K] rest by (simp only: fa_def flow.case)
  qed
  have code: "snd (getCpuTemperature env) =
                Returns (case fa of Return v \<Rightarrow> v | Next \<Rightarrow> None)"
    unfolding getCpuTemperature_def by (rule snd_finish [OF all])
  have chain: "first_yield env (probe_chain env) = (case fa of Return v \<Rightarrow> v | Next \<Rightarrow> None)"
    using h1 h2 h3 h4 ht
    by (auto simp: probe_chain_def s1 s2 s3 s4 st fw_def fr_def fa_def)
  show ?thesis by (simp only: code chain)
qed


lemma first_yield_Some:
  "first_yield env ss = Some v \<Longrightarrow> \<exists>s \<in> set ss. yields s env v"
  by (induction ss)
     (auto simp: yields_def split: outcome.splits flow.splits option.splits)

lemma first_yield_None:
  "(first_yield env ss = None) = (\<forall>s \<in> set ss. \<forall>u. \<not> yields s env u)"
  by (induction ss)
     (auto simp: yields_def split: outcome.splits flow.splits option.splits)

lemma chain_yields_not_NaN:
  assumes "\<forall>j. lhm_json env = Some (Returns j) \<longrightarrow> nan_free j"
    and "s \<in> set (probe_chain env)" and "yields s env v"
  shows "v \<noteq> NaN"
proof -
  have "s = si_strategy \<or> s = lhm_strategy \<or> s = ohm_strategy \<or> s = acpi_strategy
        \<or> s = thermal_zone_fallback"
    using assms(2) by (auto simp: probe_chain_def split: if_splits)
  then show ?thesis
    using si_flow [of env] lhm_flow [OF assms(1)] ohm_flow [of env] acpi_flow [of env]
      thermal_flow [of env] assms(3)
    by (auto simp: yields_def)
qed

text \<open>
  C1, as amended. For every run (the exported JSON, when there is one, holding no NaN)
  the resolver returns the value of the first strategy of its probe chain that yields
  one, and that value is not NaN; it returns absent exactly when no strategy of the
  chain yields a value. Only the ACPI strategy checks a range: a value it yields is
  finite and lies between -50 and 150. The values of the other strategies are returned
  as they come.
\<close>

theorem resolver_first_yield:
  assumes "\<forall>j. lhm_json env = Some (Returns j) \<longrightarrow> nan_free j"
  shows "snd (getCpuTemperature env) = Returns (first_yield env (probe_chain env))
   \<and> (snd (getCpuTemperature env) = Returns (Some v) \<longrightarrow>
        v \<noteq> NaN \<and> (\<exists>s \<in> set (probe_chain env). yields s env v))
   \<and> ((snd (getCpuTemperature env) = Returns None) =
        (\<forall>s \<in> set (probe_chain env). \<forall>u. \<not> yields s env u))
   \<and> (yields acpi_strategy env v \<longrightarrow> (\<exists>c. v = Fin c \<and> - 50 \<le> c \<and> c \<le> 150))"
proof -
  note chain = getCpuTemperature_chain [of env]
  have a: "v \<noteq> NaN \<and> (\<exists>s \<in> set (probe_chain env). yields s env v)"
    if r: "snd (getCpuTemperature env) = Returns (Some v)"
  proof -
    have "first_yield env (probe_chain env) = Some v" using r chain by simp
    then obtain s where s: "s \<in> set (probe_chain env)" "yields s env v"
      using first_yield_Some by blast
    then show ?thesis using chain_yields_not_NaN [OF assms s] by blast
  qed
  have b: "(snd (getCpuTemperature env) = Returns None) =
        (\<forall>s \<in> set (probe_chain env). \<forall>u. \<not> yields s env u)"
    using first_yield_None [of env "probe_chain env"] chain by simp
  have c: "\<exists>c. v = Fin c \<and> - 50 \<le> c \<and> c \<le> 150" if y: "yields acpi_strategy env v"
  proof (cases "acpi_query env")
    case (Throws e)
    then show ?thesis using y by (simp add: yields_def acpi_strategy_eq)
  next
    case (Returns stdout)
    then have "acpi_convert (trim stdout) = Some v"
      using y by (simp add: yields_def acpi_strategy_eq split: option.splits)
    then show ?thesis by (rule acpi_convert_range)
  qed
  show ?thesis using chain a b c by blast
qed

theorem resolver_first_yield_witness:
  "snd (getCpuTemperature
     \<lparr> si_cpuTemperature = Returns (Some NaN), win32 = True,
       lhm_json = Some (Returns (JObj [(''Text'', JStr ''Fan''), (''Value'', JNum (Fin 900))])),
       ohm_query = Throws (Exn ''ENOENT''), acpi_query = Returns ''3281'',
       thermal_dir = None \<rparr>) = Returns (Some (Fin 55))
   \<and> yields acpi_strategy
     \<lparr> si_cpuTemperature = Returns (Some NaN), win32 = True,
       lhm_json = Some (Returns (JObj [(''Text'', JStr ''Fan''), (''Value'', JNum (Fin 900))])),
       ohm_query = Throws (Exn ''ENOENT''), acpi_query = Returns ''3281'',
       thermal_dir = None \<rparr> (Fin 55)
   \<and> snd (getCpuTemperature
     \<lparr> si_cpuTemperature = Returns None, win32 = False, lhm_json = None,
       ohm_query = Throws (Exn ''ENOENT''), acpi_query = Throws (Exn ''ENOENT''),
       thermal_dir = None \<rparr>) = Returns None"
proof -
  define j where "j = JObj [(''Text'', JStr ''Fan''), (''Value'', JNum (Fin 900))]"
  define env where "env =
     \<lparr> si_cpuTemperature = Returns (Some NaN), win32 = True,
       lhm_json = Some (Returns j),
       ohm_query = Throws (Exn ''ENOENT''), acpi_query = Returns ''3281'',
       thermal_dir = (None :: zone_entry list outcome option) \<rparr>"
  define bare where "bare =
     \<lparr> si_cpuTemperature = Returns None, win32 = False,
       lhm_json = (None :: json outcome option),
       ohm_query = Throws (Exn ''ENOENT''), acpi_query = Throws (Exn ''ENOENT''),
       thermal_dir = (None :: zone_entry list outcome option) \<rparr>"
  have nf: "\<forall>k. lhm_json env = Some (Returns k) \<longrightarrow> nan_free k"
    by (simp add: env_def j_def)
  have nf': "\<forall>k. lhm_json bare = Some (Returns k) \<longrightarrow> nan_free k"
    by (simp add: bare_def)
  have lm: "\<not> label_matches (Some (JStr ''Fan''))"
    by (simp add: label_matches_def regex_alt_i_def cpu_label_alts_def toLower_def
        toLowerChar_def)
  have wj: "walk j None = None"
    by (simp add: j_def walk.simps lm)
  have tr: "trim ''3281'' = ''3281''"
    by (simp add: trim_def trimStart_def trimEnd_def is_space_def)
  note ac = acpi_convert_3281
  have y: "yields acpi_strategy env (Fin 55)"
    by (simp add: yields_def acpi_strategy_eq env_def tr ac)
  have s: "snd (si_strategy env) = Returns Next" "snd (lhm_strategy env) = Returns Next"
    "snd (ohm_strategy env) = Returns Next"
    by (simp_all add: si_strategy_eq lhm_strategy_eq ohm_strategy_eq env_def wj)
  have fy: "first_yield env (probe_chain env) = Some (Fin 55)"
    using y s by (simp add: probe_chain_def env_def yields_def)
  have sb: "snd (si_strategy bare) = Returns Next"
    "snd (thermal_zone_fallback bare) = Returns (Return None)"
    by (simp_all add: si_strategy_eq thermal_zone_fallback_eq bare_def)
  have fb: "first_yield bare (probe_chain bare) = None"
    using sb by (simp add: probe_chain_def bare_def)
  have r1: "snd (getCpuTemperature env) = Returns (Some (Fin 55))"
    using resolver_first_yield [OF nf, of "Fin 55", THEN conjunct1] fy by simp
  have r2: "snd (getCpuTemperature bare) = Returns None"
    using resolver_first_yield [OF nf', of "Fin 55", THEN conjunct1] fb by simp
  show ?thesis
    using r1 y r2 unfolding env_def bare_def j_def by (intro conjI)
qed

text \<open>
  C1 as stated fails. With no value from the library and a zone typed cpu-thermal that
  reads 200000, the only strategy that yields is the scan, with 200, outside the
  plausible range, and 200 is returned. With a library that reports infinity, infinity
  is returned: the guard of the library value excludes NaN only.
\<close>

theorem unchecked_values_counterexample:
  "snd (si_strategy
     \<lparr> si_cpuTemperature = Returns None, win32 = False, lhm_json = None,
       ohm_query = Throws (Exn ''ENOENT''), acpi_query = Throws (Exn ''ENOENT''),
       thermal_dir = Some (Returns
         [\<lparr> zone_name = ''thermal_zone0'', type_file = Some (Returns ''cpu-thermal''),
            temp_file = Some (Returns ''200000'') \<rparr>]) \<rparr>) = Returns Next
   \<and> getCpuTemperature
     \<lparr> si_cpuTemperature = Returns None, win32 = False, lhm_json = None,
       ohm_query = Throws (Exn ''ENOENT''), acpi_query = Throws (Exn ''ENOENT''),
       thermal_dir = Some (Returns
         [\<lparr> zone_name = ''thermal_zone0'', type_file = Some (Returns ''cpu-thermal''),
            temp_file = Some (Returns ''200000'') \<rparr>]) \<rparr> = ([], Returns (Some (Fin 200)))
   \<and> \<not> (200 :: rat) < 150
   \<and> getCpuTemperature
     \<lparr> si_cpuTemperature = Returns (Some PosInf), win32 = False, lhm_json = None,
       ohm_query = Throws (Exn ''ENOENT''), acpi_query = Throws (Exn ''ENOENT''),
       thermal_dir = None \<rparr> = ([], Returns (Some PosInf))
   \<and> \<not> isFinite PosInf"
proof -
  have k: "kept_readings
         [\<lparr> zone_name = ''thermal_zone0'', type_file = Some (Returns ''cpu-thermal''),
            temp_file = Some (Returns ''200000'') \<rparr>] = [200]"
    by (simp add: kept_readings_def zone_sample_def parseInt_def trim_def trimStart_def
        trimEnd_def is_space_def is_digit_def digit_of_def zone_kept_def toLower_def
        toLowerChar_def)
  have m: "maximum [200] = Some (Fin 200)"
    by (simp add: maximum_def)
  show ?thesis
    by (simp add: getCpuTemperature_def si_strategy_eq thermal_zone_fallback_eq k m ret_def
        isFinite_def)
qed

section \<open>Neither resolver raises\<close>

lemma getGpuTemperatures_eq:
  "getGpuTemperatures g =
     (case g of
        Throws e \<Rightarrow> ([Log Warn ''systeminformation graphics() failed'' (Some e)], Returns [])
      | Returns cs \<Rightarrow> gpu_loop cs [])"
proof (cases g)
  case (Throws e)
  then show ?thesis
    by (simp add: getGpuTemperatures_def call_def logger_def ret_def)
next
  case (Returns cs)
  obtain t rs where "gpu_loop cs [] = (t, Returns ([] @ rs))"
    using gpu_loop_returns [of cs "[]"] by blast
  then show ?thesis
    using Returns by (simp add: getGpuTemperatures_def call_def)
qed

lemma returns_not_throws: "snd m = Returns f \<Longrightarrow> \<not> throws m"
  by (simp add: throws_def)

text \<open>
  C8. The CPU resolver never throws: every strategy returns, and a strategy whose probe
  throws yields nothing, so that the resolver returns an optional number. The GPU
  enumerator never throws: it returns one element per controller, in the order of the
  enumeration, and when the enumeration itself fails it returns the empty sequence and
  logs one warning.
\<close>

theorem resolvers_never_raise:
  "\<not> throws (getCpuTemperature env)
   \<and> \<not> throws (si_strategy env) \<and> \<not> throws (lhm_strategy env)
   \<and> \<not> throws (ohm_strategy env) \<and> \<not> throws (acpi_strategy env)
   \<and> \<not> throws (thermal_zone_fallback env)
   \<and> (si_cpuTemperature env = Throws e \<longrightarrow> snd (si_strategy env) = Returns Next)
   \<and> (lhm_json env = Some (Throws e) \<longrightarrow> snd (lhm_strategy env) = Returns Next)
   \<and> (ohm_query env = Throws e \<longrightarrow> snd (ohm_strategy env) = Returns Next)
   \<and> (acpi_query env = Throws e \<longrightarrow> snd (acpi_strategy env) = Returns Next)
   \<and> (thermal_dir env = Some (Throws e) \<longrightarrow>
        snd (thermal_zone_fallback env) = Returns Next)
   \<and> \<not> throws (getGpuTemperatures g)
   \<and> (g = Returns cs \<longrightarrow>
        (\<exists>t rs. getGpuTemperatures g = (t, Returns rs)
           \<and> length rs = length cs
           \<and> map model rs = map (\<lambda>x. model (library_info (fst x))) cs))
   \<and> (g = Throws e \<longrightarrow>
        getGpuTemperatures g =
          ([Log Warn ''systeminformation graphics() failed'' (Some e)], Returns []))"
proof -
  have c0: "\<not> throws (getCpuTemperature env)"
    using getCpuTemperature_chain [of env] by (rule returns_not_throws)
  have c1: "\<not> throws (si_strategy env)" using si_flow [of env] by (auto simp: throws_def)
  have c2: "\<not> throws (lhm_strategy env)" using lhm_shape [of env] by (auto simp: throws_def)
  have c3: "\<not> throws (ohm_strategy env)" using ohm_flow [of env] by (auto simp: throws_def)
  have c4: "\<not> throws (acpi_strategy env)" using acpi_flow [of env] by (auto simp: throws_def)
  have c5: "\<not> throws (thermal_zone_fallback env)" using thermal_flow [of env] by (auto simp: throws_def)
  have d1: "si_cpuTemperature env = Throws e \<longrightarrow> snd (si_strategy env) = Returns Next"
    by (simp add: si_strategy_eq)
  have d2: "lhm_json env = Some (Throws e) \<longrightarrow> snd (lhm_strategy env) = Returns Next"
    by (simp add: lhm_strategy_eq)
  have d3: "ohm_query env = Throws e \<longrightarrow> snd (ohm_strategy env) = Returns Next"
    by (simp add: ohm_strategy_eq)
  have d4: "acpi_query env = Throws e \<longrightarrow> snd (acpi_strategy env) = Returns Next"
    by (simp add: acpi_strategy_eq)
  have d5: "thermal_dir env = Some (Throws e) \<longrightarrow>
        snd (thermal_zone_fallback env) = Returns Next"
    by (simp add: thermal_zone_fallback_eq)
  have g2: "\<exists>t rs. getGpuTemperatures g = (t, Returns rs)
           \<and> length rs = length cs
           \<and> map model rs = map (\<lambda>x. model (library_info (fst x))) cs"
    if "g = Returns cs"
  proof -
    obtain t rs where l: "gpu_loop cs [] = (t, Returns ([] @ rs))"
      and m: "map model rs = map (\<lambda>x. model (library_info (fst x))) cs"
      using gpu_loop_returns [of cs "[]"] by blast
    have "length rs = length cs"
      using m by (metis length_map)
    then show ?thesis
      using l m that by (simp add: getGpuTemperatures_eq)
  qed
  have g3: "g = Throws e \<longrightarrow>
        getGpuTemperatures g =
          ([Log Warn ''systeminformation graphics() failed'' (Some e)], Returns [])"
    by (simp add: getGpuTemperatures_eq)
  have g1: "\<not> throws (getGpuTemperatures g)"
  proof (cases g)
    case (Throws e')
    then show ?thesis by (simp add: getGpuTemperatures_eq)
  next
    case (Returns cs')
    obtain t rs where "gpu_loop cs' [] = (t, Returns ([] @ rs))"
      using gpu_loop_returns [of cs' "[]"] by blast
    then show ?thesis using Returns by (simp add: getGpuTemperatures_eq)
  qed
  show ?thesis
    using c0 c1 c2 c3 c4 c5 d1 d2 d3 d4 d5 g1 g2 g3 by blast
qed

theorem resolvers_never_raise_witness:
  "getCpuTemperature
     \<lparr> si_cpuTemperature = Throws (Exn ''si''), win32 = True,
       lhm_json = Some (Throws (Exn ''SyntaxError'')),
       ohm_query = Throws (Exn ''ETIMEDOUT''), acpi_query = Throws (Exn ''ENOENT''),
       thermal_dir = Some (Throws (Exn ''EACCES'')) \<rparr> =
     ([Log Warn ''systeminformation cpuTemperature() failed, attempting fallback''
         (Some (Exn ''si'')),
       Log Debug ''Failed parsing LibreHardwareMonitor JSON'' (Some (Exn ''SyntaxError'')),
       Exec OhmSensorQuery,
       Log Debug ''OpenHardwareMonitor WMI query failed (likely not running)''
         (Some (Exn ''ETIMEDOUT'')),
       Exec AcpiThermalZoneQuery,
       Log Debug ''MSAcpi_ThermalZoneTemperature WMI fallback failed'' (Some (Exn ''ENOENT'')),
       Log Warn ''CPU thermal zone fallback failed'' (Some (Exn ''EACCES''))],
      Returns None)
   \<and> \<not> throws (getCpuTemperature
     \<lparr> si_cpuTemperature = Throws (Exn ''si''), win32 = True,
       lhm_json = Some (Throws (Exn ''SyntaxError'')),
       ohm_query = Throws (Exn ''ETIMEDOUT''), acpi_query = Throws (Exn ''ENOENT''),
       thermal_dir = Some (Throws (Exn ''EACCES'')) \<rparr>)
   \<and> getGpuTemperatures (Throws (Exn ''si'')) =
       ([Log Warn ''systeminformation graphics() failed'' (Some (Exn ''si''))], Returns [])
   \<and> length (case snd (getGpuTemperatures (Returns
         [(\<lparr> c_vendor = ''Intel'', c_model = ''UHD'', c_temperatureGpu = None,
             c_temperatureMemory = None \<rparr>, Throws (Exn ''ENOENT'')),
          (\<lparr> c_vendor = ''NVIDIA'', c_model = '''', c_temperatureGpu = None,
             c_temperatureMemory = None \<rparr>, Throws (Exn ''ENOENT''))])) of
        Returns rs \<Rightarrow> rs | Throws x \<Rightarrow> []) = 2"
proof -
  define env where "env =
     \<lparr> si_cpuTemperature = Throws (Exn ''si''), win32 = True,
       lhm_json = Some (Throws (Exn ''SyntaxError'') :: json outcome),
       ohm_query = Throws (Exn ''ETIMEDOUT''), acpi_query = Throws (Exn ''ENOENT''),
       thermal_dir = Some (Throws (Exn ''EACCES'') :: zone_entry list outcome) \<rparr>"
  define cs where "cs =
         [(\<lparr> c_vendor = ''Intel'', c_model = ''UHD'', c_temperatureGpu = None,
             c_temperatureMemory = None \<rparr>, Throws (Exn ''ENOENT'') :: string outcome),
          (\<lparr> c_vendor = ''NVIDIA'', c_model = '''', c_temperatureGpu = None,
             c_temperatureMemory = None \<rparr>, Throws (Exn ''ENOENT''))]"
  note th = resolvers_never_raise [of env "Exn ''si''" "Throws (Exn ''si'')" cs]
  note th2 = resolvers_never_raise [of env "Exn ''si''" "Returns cs" cs]
  have a: "getCpuTemperature env =
     ([Log Warn ''systeminformation cpuTemperature() failed, attempting fallback''
         (Some (Exn ''si'')),
       Log Debug ''Failed parsing LibreHardwareMonitor JSON'' (Some (Exn ''SyntaxError'')),
       Exec OhmSensorQuery,
       Log Debug ''OpenHardwareMonitor WMI query failed (likely not running)''
         (Some (Exn ''ETIMEDOUT'')),
       Exec AcpiThermalZoneQuery,
       Log Debug ''MSAcpi_ThermalZoneTemperature WMI fallback failed'' (Some (Exn ''ENOENT'')),
       Log Warn ''CPU thermal zone fallback failed'' (Some (Exn ''EACCES''))],
      Returns None)"
    by (simp add: getCpuTemperature_def windows_strategies_def si_strategy_eq lhm_strategy_eq
        ohm_strategy_eq acpi_strategy_eq thermal_zone_fallback_eq env_def)
  have b: "\<not> throws (getCpuTemperature env)"
    using th by (rule conjunct1)
  have c: "getGpuTemperatures (Throws (Exn ''si'')) =
       ([Log Warn ''systeminformation graphics() failed'' (Some (Exn ''si''))], Returns [])"
    using th by blast
  obtain t rs where g: "getGpuTemperatures (Returns cs) = (t, Returns rs)"
    and l: "length rs = length cs"
    using th2 by blast
  have d: "length (case snd (getGpuTemperatures (Returns cs)) of
        Returns rs \<Rightarrow> rs | Throws x \<Rightarrow> []) = 2"
    using g l by (simp add: cs_def)
  show ?thesis
    using a b c d unfolding env_def cs_def by (intro conjI)
qed

end
